theory Spec2Isabelle
  imports Main
begin

section \<open>Python values and failures\<close>

text \<open>
  Both adapters work on parsed JSON documents. A document is a \<open>json\<close> value; a dict is an
  association list whose first binding of a key is the one \<open>get\<close> reads. Numbers are
  integers (no adapter path examined here computes with fractions).
\<close>

datatype json =
    JNull
  | JBool bool
  | JNum int
  | JStr string
  | JArr "json list"
  | JObj "(string \<times> json) list"

text \<open>
  A raised exception is a value. \<open>Raised c msg\<close> is an exception of class \<open>c\<close>, all of
  them subclasses of Python's \<open>Exception\<close>, with \<open>str(e) = msg\<close>; for an exception of a
  built-in operation the message is a short description, not the interpreter's text.
  \<open>SystemExit msg\<close> is the exit of \<open>return_error\<close> after it reported \<open>msg\<close>.
\<close>

datatype exc_class =
    ValueError | TypeError | AttributeError | AssertionError | KeyError | OtherException

datatype error =
    Raised exc_class string
  | SystemExit string

text \<open>
  Modelled from the spec: \<open>return_error\<close> (CommonServerPython, not under src/). The spec
  has client-level failures "classified and surfaced immediately, aborting the current
  command (no local recovery/retry)" with "a single explanatory message": the call never
  returns, and the abort is not an \<open>Exception\<close> that a local \<open>except Exception\<close>
  handler would recover from.
\<close>

definition return_error :: "string \<Rightarrow> error + 'a" where
  "return_error message = Inl (SystemExit message)"

text \<open>What an \<open>except Exception\<close> clause catches.\<close>

fun is_Exception :: "error \<Rightarrow> bool" where
  "is_Exception (Raised c msg) = True"
| "is_Exception (SystemExit msg) = False"

fun str_of_error :: "error \<Rightarrow> string" where
  "str_of_error (Raised c msg) = msg"
| "str_of_error (SystemExit msg) = msg"

text \<open>Sequencing: a failure of the first step is the failure of the whole.\<close>

fun and_then :: "error + 'a \<Rightarrow> ('a \<Rightarrow> error + 'b) \<Rightarrow> error + 'b" where
  "and_then (Inl e) f = Inl e"
| "and_then (Inr x) f = f x"

text \<open>Python truthiness (\<open>if x:\<close>, \<open>x or y\<close>).\<close>

fun truthy :: "json \<Rightarrow> bool" where
  "truthy JNull = False"
| "truthy (JBool b) = b"
| "truthy (JNum n) = (n \<noteq> 0)"
| "truthy (JStr s) = (s \<noteq> [])"
| "truthy (JArr xs) = (xs \<noteq> [])"
| "truthy (JObj kvs) = (kvs \<noteq> [])"

definition py_or :: "json \<Rightarrow> json \<Rightarrow> json" where
  "py_or a b = (if truthy a then a else b)"

text \<open>\<open>d.get(key, default)\<close>: only a dict has the method.\<close>

fun dict_get :: "json \<Rightarrow> string \<Rightarrow> json \<Rightarrow> error + json" where
  "dict_get (JObj kvs) key dflt = Inr (case map_of kvs key of None \<Rightarrow> dflt | Some v \<Rightarrow> v)"
| "dict_get v key dflt = Inl (Raised AttributeError ''object has no attribute get'')"

text \<open>
  The items of a dict, in order: a binding shadowed by an earlier one of the same key is
  not an item.
\<close>

fun dict_items :: "(string \<times> json) list \<Rightarrow> (string \<times> json) list" where
  "dict_items [] = []"
| "dict_items (kv # kvs) = kv # dict_items (filter (\<lambda>kv'. fst kv' \<noteq> fst kv) kvs)"

text \<open>\<open>for x in v\<close>: a list gives its items, a dict its keys, a string its characters.\<close>

fun py_iter :: "json \<Rightarrow> error + json list" where
  "py_iter (JArr xs) = Inr xs"
| "py_iter (JObj kvs) = Inr (map (\<lambda>kv. JStr (fst kv)) (dict_items kvs))"
| "py_iter (JStr s) = Inr (map (\<lambda>c. JStr [c]) s)"
| "py_iter v = Inl (Raised TypeError ''object is not iterable'')"

subsection \<open>\<open>int(x)\<close>\<close>

text \<open>
  \<open>int\<close> of a string of ASCII characters: surrounding whitespace (tab, line feed,
  vertical tab, form feed, carriage return and space) is dropped, then an optional sign
  and decimal digits, where single underscores may stand between digits.
\<close>

definition is_digit :: "char \<Rightarrow> bool" where
  "is_digit c = (c \<in> set ''0123456789'')"

definition digit_val :: "char \<Rightarrow> nat" where
  "digit_val c = of_char c - 48"

definition is_space :: "char \<Rightarrow> bool" where
  "is_space c = (let n = (of_char c :: nat) in (9 \<le> n \<and> n \<le> 13) \<or> n = 32)"

fun digits_value :: "nat \<Rightarrow> string \<Rightarrow> nat option" where
  "digits_value acc [] = Some acc"
| "digits_value acc (c # cs) =
     (if is_digit c then digits_value (10 * acc + digit_val c) cs
      else if c = CHR ''_'' \<and> cs \<noteq> [] \<and> is_digit (hd cs) then digits_value acc cs
      else None)"

definition unsigned_value :: "string \<Rightarrow> nat option" where
  "unsigned_value s = (if s \<noteq> [] \<and> is_digit (hd s) then digits_value 0 s else None)"

definition strip :: "string \<Rightarrow> string" where
  "strip s = rev (dropWhile is_space (rev (dropWhile is_space s)))"

definition int_of_string :: "string \<Rightarrow> int option" where
  "int_of_string s =
     (case strip s of
        [] \<Rightarrow> None
      | c # cs \<Rightarrow>
          if c = CHR ''-'' then map_option (\<lambda>n. - int n) (unsigned_value cs)
          else if c = CHR ''+'' then map_option int (unsigned_value cs)
          else map_option int (unsigned_value (c # cs)))"

fun py_int :: "json \<Rightarrow> error + int" where
  "py_int (JNum n) = Inr n"
| "py_int (JBool b) = Inr (if b then 1 else 0)"
| "py_int (JStr s) =
     (case int_of_string s of
        None \<Rightarrow> Inl (Raised ValueError (''invalid literal for int() with base 10: '' @ s))
      | Some n \<Rightarrow> Inr n)"
| "py_int v = Inl (Raised TypeError ''int() argument must be a string, a bytes-like object or a real number'')"

text \<open>
  Modelled from the spec: \<open>demisto.get\<close> (the platform's dotted-path reader, not under
  src/): "dotted-path field extractions (e.g., fields.status.name), with graceful
  fallback to a placeholder when a path is absent". The path is given already split at
  the dots; the placeholder is \<open>None\<close>.
\<close>

fun demisto_get :: "json \<Rightarrow> string list \<Rightarrow> json" where
  "demisto_get obj [] = obj"
| "demisto_get (JObj kvs) (part # parts) =
     (case map_of kvs part of None \<Rightarrow> JNull | Some v \<Rightarrow> demisto_get v parts)"
| "demisto_get obj (part # parts) = JNull"

section \<open>Jira: inbound discovery (\<open>fetch_incidents\<close>)\<close>

text \<open>
  The JQL text is built by appending clauses to the configured query. A clause value
  stands for the text the f-string renders: \<open>IdGe v\<close> for \<open>AND id >= {v}\<close>,
  \<open>CreatedGe t\<close> for \<open>AND created>="{t}"\<close>, \<open>CreatedLastMinute\<close> for
  \<open>AND created>-1m\<close>.
\<close>

datatype datetime = Naive int | Aware int

datatype jql_clause = IdGe json | CreatedGe datetime | CreatedLastMinute

record jql =
  base_query :: json
  clauses :: "jql_clause list"

text \<open>\<open>t - timedelta(minutes=2)\<close>, with instants counted in microseconds.\<close>

fun minus_minutes :: "datetime \<Rightarrow> int \<Rightarrow> datetime" where
  "minus_minutes (Naive t) m = Naive (t - m * 60000000)"
| "minus_minutes (Aware t) m = Aware (t - m * 60000000)"

definition get_mirror_type :: "bool \<Rightarrow> bool \<Rightarrow> json" where
  "get_mirror_type should_mirror_in should_mirror_out =
     (if should_mirror_in \<and> should_mirror_out then JStr ''Both''
      else if should_mirror_in then JStr ''In''
      else if should_mirror_out then JStr ''Out''
      else JNull)"

record fetch_args =
  query :: json
  id_offset :: json
  should_get_attachments :: bool
  should_get_comments :: bool
  should_mirror_in :: bool
  should_mirror_out :: bool
  comment_tag :: json
  attachment_tag :: json
  fetch_by_created :: bool

text \<open>
  The incident handed to the platform. Of the keys \<open>create_incident_from_ticket\<close> fills,
  \<open>details\<close>, \<open>severity\<close> and \<open>rawJSON\<close> are kept: \<open>rawJSON\<close> is the issue itself,
  extended by the three mirror keys, before \<open>json.dumps\<close>. The keys \<open>name\<close> and
  \<open>labels\<close> (renderings by Python's \<open>str\<close>) and \<open>attachment\<close> (file downloads, whose
  failures the source swallows) are not part of the record; the labels read
  \<open>issue.get('id')\<close> first, which only a dict allows.
\<close>

record jira_incident =
  details :: json
  severity :: int
  rawJSON :: json

text \<open>\<open>d[k] = v\<close>: only a dict takes the assignment.\<close>

definition set_key :: "string \<Rightarrow> json \<Rightarrow> (string \<times> json) list \<Rightarrow> (string \<times> json) list" where
  "set_key k v kvs = (if k \<in> fst ` set kvs then map (\<lambda>kv. if fst kv = k then (k, v) else kv) kvs
                      else kvs @ [(k, v)])"

fun dict_assign :: "json \<Rightarrow> string \<Rightarrow> json \<Rightarrow> error + json" where
  "dict_assign (JObj kvs) k v = Inr (JObj (set_key k v kvs))"
| "dict_assign obj k v = Inl (Raised TypeError ''object does not support item assignment'')"

definition severity_of :: "json \<Rightarrow> int" where
  "severity_of issue =
     (if truthy (demisto_get issue [''fields'', ''priority''])
         \<and> truthy (demisto_get issue [''fields'', ''priority'', ''name''])
      then (let p = demisto_get issue [''fields'', ''priority'', ''name''] in
            if p = JStr ''Highest'' then 4
            else if p = JStr ''High'' then 3
            else if p = JStr ''Medium'' then 2
            else if p = JStr ''Low'' then 1
            else 0)
      else 0)"

definition create_incident_from_ticket :: "json \<Rightarrow> fetch_args \<Rightarrow> json \<Rightarrow> error + jira_incident" where
  "create_incident_from_ticket instance_name args issue =
     and_then (dict_get issue ''id'' JNull) (\<lambda>issue_id.
     and_then (dict_assign issue ''mirror_direction''
                 (get_mirror_type (should_mirror_in args) (should_mirror_out args))) (\<lambda>issue1.
     and_then (dict_assign issue1 ''mirror_tags''
                 (JArr [comment_tag args, attachment_tag args])) (\<lambda>issue2.
     and_then (dict_assign issue2 ''mirror_instance'' instance_name) (\<lambda>issue3.
       Inr \<lparr> details = demisto_get issue3 [''fields'', ''description''],
             severity = severity_of issue,
             rawJSON = issue3 \<rparr>))))"

text \<open>
  The environment of a Jira poll: \<open>run_query\<close> answers a JQL query with the parsed
  response (a dict with a non-empty \<open>issues\<close> list, or the empty dict) or raises;
  \<open>parse\<close> is dateparser's; \<open>integrationInstance\<close> is the platform's instance name.
\<close>

record jira_env =
  run_query :: "jql \<Rightarrow> error + json"
  parse :: "json \<Rightarrow> error + datetime option"
  integrationInstance :: json

text \<open>What the loop reads of a ticket: \<open>int(ticket.get('id'))\<close> and
  \<open>ticket.get('fields', {}).get('created', '')\<close>.\<close>

definition ticket_id_of :: "json \<Rightarrow> error + int" where
  "ticket_id_of ticket = and_then (dict_get ticket ''id'' JNull) py_int"

definition ticket_created_of :: "json \<Rightarrow> error + json" where
  "ticket_created_of ticket =
     and_then (dict_get ticket ''fields'' (JObj [])) (\<lambda>tfields. dict_get tfields ''created'' (JStr []))"

text \<open>
  The loop over the returned issues. The state is \<open>(offset, created, incidents)\<close>, the
  running values of \<open>id_offset\<close>, \<open>last_created_time\<close> and \<open>incidents\<close>;
  \<open>curr_id\<close> is fixed before the loop.
\<close>

fun fetch_loop ::
  "(json \<Rightarrow> error + jira_incident) \<Rightarrow> int \<Rightarrow> json list \<Rightarrow> json \<times> json \<times> jira_incident list
     \<Rightarrow> error + (json \<times> json \<times> jira_incident list)" where
  "fetch_loop mk curr_id [] st = Inr st"
| "fetch_loop mk curr_id (ticket # rest) (offset, created, incidents) =
     and_then (ticket_id_of ticket) (\<lambda>ticket_id.
     and_then (ticket_created_of ticket) (\<lambda>ticket_created.
       if ticket_id \<le> curr_id
       then fetch_loop mk curr_id rest (offset, created, incidents)
       else and_then (py_int offset) (\<lambda>off.
            and_then (mk ticket) (\<lambda>incident.
              if ticket_id > off
              then fetch_loop mk curr_id rest (JNum ticket_id, ticket_created, incidents @ [incident])
              else fetch_loop mk curr_id rest (offset, created, incidents @ [incident])))))"

text \<open>The query the poll sends, or the failed assertion on an unparsable stored time.\<close>

definition build_query :: "jira_env \<Rightarrow> fetch_args \<Rightarrow> json \<Rightarrow> json \<Rightarrow> error + jql" where
  "build_query env args offset last_created_time =
     (if fetch_by_created args \<and> truthy last_created_time
      then and_then (parse env last_created_time) (\<lambda>parsed.
             case parsed of
               None \<Rightarrow> Inl (Raised AssertionError ''could not parse'')
             | Some last_issue_time \<Rightarrow>
                 Inr \<lparr> base_query = query args,
                       clauses = [CreatedGe (minus_minutes last_issue_time 2)] \<rparr>)
      else Inr \<lparr> base_query = query args,
                 clauses = (if truthy offset then [IdGe offset] else [])
                           @ (if fetch_by_created args then [CreatedLastMinute] else []) \<rparr>)"

text \<open>
  The cursor a poll starts from: the stored one when \<open>last_run\<close> is not the empty
  dict, the configured \<open>id_offset\<close> otherwise, and \<open>0\<close> for a falsy offset.
\<close>

definition last_run_get :: "(string \<times> json) list \<Rightarrow> string \<Rightarrow> json" where
  "last_run_get last_run key = (case map_of last_run key of None \<Rightarrow> JNull | Some v \<Rightarrow> v)"

definition initial_cursor :: "(string \<times> json) list \<Rightarrow> fetch_args \<Rightarrow> json \<times> json" where
  "initial_cursor last_run args =
     (let offset0 = (if last_run \<noteq> [] then py_or (last_run_get last_run ''idOffset'') (JStr [])
                     else id_offset args);
          last_created_time =
                    (if last_run \<noteq> [] then py_or (last_run_get last_run ''lastCreatedTime'') (JStr [])
                     else JStr [])
      in (if \<not> truthy offset0 then JNum 0 else offset0, last_created_time))"

text \<open>The answer of the remote system to the query of a poll.\<close>

definition jira_poll_response :: "jira_env \<Rightarrow> (string \<times> json) list \<Rightarrow> fetch_args \<Rightarrow> error + json" where
  "jira_poll_response env last_run args =
     (case initial_cursor last_run args of (offset, last_created_time) \<Rightarrow>
        and_then (build_query env args offset last_created_time) (run_query env))"

text \<open>The tickets a response holds: \<open>for ticket in res.get('issues')\<close>.\<close>

definition jira_issues :: "json \<Rightarrow> error + json list" where
  "jira_issues res = and_then (dict_get res ''issues'' JNull) py_iter"

text \<open>
  \<open>fetch_incidents\<close> of JiraV2: the stored cursor \<open>last_run\<close> is a dict (the empty dict
  before the first poll). The result is the cursor written by \<open>setLastRun\<close> and the
  incidents returned; a raised failure leaves the stored cursor as it was.
\<close>

definition jira_fetch_incidents ::
  "jira_env \<Rightarrow> (string \<times> json) list \<Rightarrow> fetch_args
     \<Rightarrow> error + ((string \<times> json) list \<times> jira_incident list)" where
  "jira_fetch_incidents env last_run args =
     (case initial_cursor last_run args of (offset, last_created_time) \<Rightarrow>
        and_then (jira_poll_response env last_run args) (\<lambda>res.
        and_then (if truthy res
                  then and_then (py_int offset) (\<lambda>curr_id.
                       and_then (jira_issues res) (\<lambda>tickets.
                         fetch_loop (create_incident_from_ticket (integrationInstance env) args)
                           curr_id tickets (offset, last_created_time, [])))
                  else Inr (offset, last_created_time, []))
          (\<lambda>(offset', last_created_time', incidents).
             Inr ([(''idOffset'', offset'), (''lastCreatedTime'', last_created_time')], incidents))))"

section \<open>CASB: inbound discovery (\<open>fetch_incidents\<close>)\<close>

text \<open>
  The seen-id set is a Python \<open>set\<close>. Its members must be hashable, and \<open>True\<close> and
  \<open>1\<close> (\<open>False\<close> and \<open>0\<close>) are the same member; the set holds the key of each member.
\<close>

fun hash_key :: "json \<Rightarrow> error + json" where
  "hash_key (JBool b) = Inr (JNum (if b then 1 else 0))"
| "hash_key (JArr xs) = Inl (Raised TypeError ''unhashable type: list'')"
| "hash_key (JObj kvs) = Inl (Raised TypeError ''unhashable type: dict'')"
| "hash_key v = Inr v"

text \<open>
  The stored cursor: a dict with the optional keys \<open>start_time\<close> and \<open>ids\<close> (\<open>None\<close> for
  an absent key).
\<close>

record casb_last_run =
  start_time :: "json option"
  ids :: "json set option"

text \<open>
  The incident handed to the platform: \<open>raw_json\<close> is the remote incident before
  \<open>json.dumps\<close>. The key \<open>name\<close> (a rendering of the id by Python's \<open>str\<close>) is not part
  of the record.
\<close>

record xsoar_incident =
  occurred :: json
  raw_json :: json
  dbotMirrorId :: json

text \<open>
  The environment of a CASB poll: \<open>incident_query limit start_time\<close> posts the query
  and returns the parsed response or raises; \<open>max_fetch\<close> is the configured limit after
  \<open>arg_to_number\<close>, \<open>first_fetch\<close> the formatted first-fetch time.
\<close>

record casb_env =
  incident_query :: "int option \<Rightarrow> json \<Rightarrow> error + json"
  max_fetch :: "int option"
  first_fetch :: json

text \<open>The member an incident is in the seen-id set, from \<open>incident.get('incidentId')\<close>.\<close>

definition incident_key :: "json \<Rightarrow> error + json" where
  "incident_key incident = and_then (dict_get incident ''incidentId'' JNull) hash_key"

definition to_xsoar :: "json \<Rightarrow> error + xsoar_incident" where
  "to_xsoar incident =
     and_then (dict_get incident ''incidentId'' JNull) (\<lambda>incident_id.
     and_then (dict_get incident ''timeModified'' JNull) (\<lambda>time_modified.
       Inr \<lparr> occurred = time_modified, raw_json = incident, dbotMirrorId = incident_id \<rparr>))"

fun casb_loop :: "json list \<Rightarrow> json set \<times> xsoar_incident list
                    \<Rightarrow> error + (json set \<times> xsoar_incident list)" where
  "casb_loop [] st = Inr st"
| "casb_loop (incident # rest) (seen, xsoar_incidents) =
     and_then (incident_key incident) (\<lambda>k.
       if k \<notin> seen
       then and_then (to_xsoar incident) (\<lambda>x. casb_loop rest (insert k seen, xsoar_incidents @ [x]))
       else casb_loop rest (seen, xsoar_incidents))"

definition casb_start_time :: "casb_env \<Rightarrow> casb_last_run \<Rightarrow> json" where
  "casb_start_time env last_run =
     py_or (case start_time last_run of None \<Rightarrow> JNull | Some t \<Rightarrow> t) (first_fetch env)"

text \<open>The answer of the remote system to the query of a poll.\<close>

definition casb_poll_response :: "casb_env \<Rightarrow> casb_last_run \<Rightarrow> error + json" where
  "casb_poll_response env last_run =
     incident_query env (max_fetch env) (casb_start_time env last_run)"

text \<open>
  \<open>result.get('body', {}).get('incidents', {})\<close> and
  \<open>result.get('body', {}).get('responseInfo', {}).get('nextStartTime', {})\<close>.
\<close>

definition casb_incidents :: "json \<Rightarrow> error + json" where
  "casb_incidents result =
     and_then (dict_get result ''body'' (JObj [])) (\<lambda>body. dict_get body ''incidents'' (JObj []))"

definition casb_next_start_time :: "json \<Rightarrow> error + json" where
  "casb_next_start_time result =
     and_then (dict_get result ''body'' (JObj [])) (\<lambda>body.
     and_then (dict_get body ''responseInfo'' (JObj [])) (\<lambda>response_info.
       dict_get response_info ''nextStartTime'' (JObj [])))"

definition seen_ids :: "casb_last_run \<Rightarrow> json set" where
  "seen_ids last_run = (case ids last_run of None \<Rightarrow> {} | Some s \<Rightarrow> s)"

text \<open>
  \<open>fetch_incidents\<close> of McAfeeMVisionCASB: returns the new cursor and the incidents.
\<close>

definition casb_fetch_incidents ::
  "casb_env \<Rightarrow> casb_last_run \<Rightarrow> error + (casb_last_run \<times> xsoar_incident list)" where
  "casb_fetch_incidents env last_run =
     and_then (casb_poll_response env last_run) (\<lambda>result.
     and_then (casb_incidents result) (\<lambda>incidents.
       if truthy incidents
       then and_then (py_iter incidents) (\<lambda>items.
            and_then (casb_loop items (seen_ids last_run, [])) (\<lambda>(seen, xsoar_incidents).
            and_then (casb_next_start_time result) (\<lambda>next_start_time.
              Inr (\<lparr> start_time = Some next_start_time, ids = Some seen \<rparr>, xsoar_incidents))))
       else Inr (last_run, [])))"

section \<open>Auxiliary notions for the poll properties\<close>

text \<open>A ticket the loop emits: its id is a number above \<open>curr_id\<close>.\<close>

definition newer :: "int \<Rightarrow> json \<Rightarrow> bool" where
  "newer c ticket = (case ticket_id_of ticket of Inl e \<Rightarrow> False | Inr n \<Rightarrow> c < n)"

text \<open>An offset as a poll keeps it: truthy, or the number \<open>0\<close>.\<close>

definition normal_offset :: "json \<Rightarrow> bool" where
  "normal_offset v = (truthy v \<or> v = JNum 0)"

text \<open>The tickets a Jira poll iterates over, and the incidents a CASB poll iterates over.\<close>

definition jira_returned :: "jira_env \<Rightarrow> (string \<times> json) list \<Rightarrow> fetch_args \<Rightarrow> error + json list" where
  "jira_returned env last_run args =
     and_then (jira_poll_response env last_run args) (\<lambda>res.
       if truthy res then jira_issues res else Inr [])"

definition casb_returned :: "casb_env \<Rightarrow> casb_last_run \<Rightarrow> error + json list" where
  "casb_returned env last_run =
     and_then (casb_poll_response env last_run) (\<lambda>result.
     and_then (casb_incidents result) (\<lambda>incidents.
       if truthy incidents then py_iter incidents else Inr []))"

section \<open>Example data\<close>

definition ex_ticket :: "string \<Rightarrow> string \<Rightarrow> json" where
  "ex_ticket i c = JObj [(''id'', JStr i), (''fields'', JObj [(''created'', JStr c)])]"

definition ex_jira_env :: jira_env where
  "ex_jira_env =
     \<lparr> run_query = (\<lambda>q. Inr (JObj [(''issues'',
                        JArr [ex_ticket ''99'' ''t1'', ex_ticket ''101'' ''t2'', ex_ticket ''105'' ''t3''])])),
       parse = (\<lambda>t. Inr None),
       integrationInstance = JStr ''jira'' \<rparr>"

definition ex_fetch_args :: fetch_args where
  "ex_fetch_args =
     \<lparr> query = JStr ''project = SOC'', id_offset = JStr ''100'',
       should_get_attachments = False, should_get_comments = False,
       should_mirror_in = True, should_mirror_out = False,
       comment_tag = JStr ''comment'', attachment_tag = JStr ''attachment'',
       fetch_by_created = False \<rparr>"

definition ex_jira_last_run :: "(string \<times> json) list" where
  "ex_jira_last_run = [(''idOffset'', JNum 105), (''lastCreatedTime'', JStr ''t3'')]"

definition ex_incident :: "string \<Rightarrow> json" where
  "ex_incident i = JObj [(''incidentId'', JStr i), (''timeModified'', JStr ''tm'')]"

definition ex_casb_result :: "json list \<Rightarrow> json" where
  "ex_casb_result incidents =
     JObj [(''body'', JObj [(''incidents'', JArr incidents),
                            (''responseInfo'', JObj [(''nextStartTime'', JStr ''next'')])])]"

definition ex_casb_env :: "json list \<Rightarrow> casb_env" where
  "ex_casb_env incidents =
     \<lparr> incident_query = (\<lambda>limit t. Inr (ex_casb_result incidents)),
       max_fetch = Some 50, first_fetch = JStr ''2024-01-01T00:00:00.000000Z'' \<rparr>"

definition ex_casb_last_run :: casb_last_run where
  "ex_casb_last_run = \<lparr> start_time = Some (JStr ''next''), ids = Some {JStr ''A'', JStr ''B''} \<rparr>"

text \<open>
  A remote system with a backlog of 51 issues, numbered 1 to 51, that answers a query with
  at most 50 of the issues whose id is at least the bound of the query's \<open>id >=\<close> clause.
\<close>

definition ex_numbered_ticket :: "nat \<Rightarrow> json" where
  "ex_numbered_ticket n = JObj [(''id'', JNum (int n)), (''fields'', JObj [(''created'', JStr [])])]"

definition ex_backlog :: "json list" where
  "ex_backlog = map ex_numbered_ticket [1..<52]"

fun clause_bound :: "jql_clause list \<Rightarrow> int" where
  "clause_bound [] = 0"
| "clause_bound (IdGe v # cs) = (case py_int v of Inl e \<Rightarrow> 0 | Inr n \<Rightarrow> n)"
| "clause_bound (c # cs) = clause_bound cs"

definition ex_matches :: "int \<Rightarrow> json \<Rightarrow> bool" where
  "ex_matches bound ticket = (case ticket_id_of ticket of Inl e \<Rightarrow> False | Inr n \<Rightarrow> bound \<le> n)"

definition ex_page :: "jql \<Rightarrow> error + json" where
  "ex_page q =
     (case take 50 (filter (ex_matches (clause_bound (clauses q))) ex_backlog) of
        [] \<Rightarrow> Inr (JObj [])
      | t # ts \<Rightarrow> Inr (JObj [(''issues'', JArr (t # ts))]))"

definition ex_paging_env :: jira_env where
  "ex_paging_env = \<lparr> run_query = ex_page, parse = (\<lambda>t. Inr None), integrationInstance = JStr ''jira'' \<rparr>"

definition ex_plain_args :: fetch_args where
  "ex_plain_args = ex_fetch_args \<lparr> id_offset := JNull \<rparr>"

definition ex_cursor :: "int \<Rightarrow> (string \<times> json) list" where
  "ex_cursor n = [(''idOffset'', JNum n), (''lastCreatedTime'', JStr [])]"

definition ex_numbered_incident :: "nat \<Rightarrow> jira_incident" where
  "ex_numbered_incident n =
     \<lparr> details = JNull, severity = 0,
       rawJSON = JObj [(''id'', JNum (int n)), (''fields'', JObj [(''created'', JStr [])]),
                       (''mirror_direction'', JStr ''In''),
                       (''mirror_tags'', JArr [JStr ''comment'', JStr ''attachment'']),
                       (''mirror_instance'', JStr ''jira'')] \<rparr>"

section \<open>Python renderings\<close>

text \<open>\<open>str\<close> of an integer.\<close>

definition digit_char :: "nat \<Rightarrow> char" where
  "digit_char n = ''0123456789'' ! (n mod 10)"

fun show_nat :: "nat \<Rightarrow> string" where
  "show_nat n = (if n < 10 then [digit_char n] else show_nat (n div 10) @ [digit_char (n mod 10)])"

definition show_int :: "int \<Rightarrow> string" where
  "show_int i = (if i < 0 then CHR ''-'' # show_nat (nat (- i)) else show_nat (nat i))"

text \<open>\<open>sep.join(parts)\<close>.\<close>

fun join :: "string \<Rightarrow> string list \<Rightarrow> string" where
  "join sep [] = []"
| "join sep [s] = s"
| "join sep (s # t # rest) = s @ sep @ join sep (t # rest)"

text \<open>
  \<open>repr\<close> of a string of ASCII characters: single quotes unless the string has a single
  and no double quote; the quote and the backslash are escaped, and so are the control
  characters. Beyond ASCII, which characters \<open>repr\<close> escapes is a matter of the Unicode
  tables of the interpreter.
\<close>

definition hex_char :: "nat \<Rightarrow> char" where
  "hex_char n = ''0123456789abcdef'' ! (n mod 16)"

definition escape_char :: "char \<Rightarrow> char \<Rightarrow> string" where
  "escape_char q c =
     (if c = q \<or> c = CHR 0x5C then [CHR 0x5C, c]
      else if c = CHR 0x09 then [CHR 0x5C, CHR ''t'']
      else if c = CHR 0x0A then [CHR 0x5C, CHR ''n'']
      else if c = CHR 0x0D then [CHR 0x5C, CHR ''r'']
      else if (of_char c :: nat) < 32 \<or> (of_char c :: nat) = 127
        then [CHR 0x5C, CHR ''x'', hex_char (of_char c div 16), hex_char (of_char c)]
      else [c])"

definition repr_str :: "string \<Rightarrow> string" where
  "repr_str s =
     (let q = (if CHR 0x27 \<in> set s \<and> CHR 0x22 \<notin> set s then CHR 0x22 else CHR 0x27)
      in q # concat (map (escape_char q) s) @ [q])"

text \<open>
  \<open>repr(x)\<close>, given the \<open>repr\<close> of a string as \<open>r\<close>: a list and a dict render their items
  with \<open>repr\<close>.
\<close>

function py_repr_with :: "(string \<Rightarrow> string) \<Rightarrow> json \<Rightarrow> string" where
  "py_repr_with r JNull = ''None''"
| "py_repr_with r (JBool b) = (if b then ''True'' else ''False'')"
| "py_repr_with r (JNum n) = show_int n"
| "py_repr_with r (JStr s) = r s"
| "py_repr_with r (JArr xs) = ''['' @ join '', '' (map (py_repr_with r) xs) @ '']''"
| "py_repr_with r (JObj kvs) =
     ''{'' @ join '', '' (map (\<lambda>kv. r (fst kv) @ '': '' @ py_repr_with r (snd kv)) (dict_items kvs)) @ ''}''"
  by pat_completeness auto
termination
proof (relation "measure (\<lambda>p. size (snd p))")
  show "wf (measure (\<lambda>p. size (snd p)))" by simp
next
  fix r :: "string \<Rightarrow> string" and xs :: "json list" and x
  assume "x \<in> set xs"
  then show "((r, x), (r, JArr xs)) \<in> measure (\<lambda>p. size (snd p))"
    by (induction xs) auto
next
  fix r :: "string \<Rightarrow> string" and kvs :: "(string \<times> json) list" and kv
  have sub: "set (dict_items l) \<subseteq> set l" for l
    by (induction l rule: dict_items.induct) auto
  assume "kv \<in> set (dict_items kvs)"
  then have "kv \<in> set kvs" using sub by blast
  then show "((r, snd kv), (r, JObj kvs)) \<in> measure (\<lambda>p. size (snd p))"
    by (induction kvs) auto
qed


text \<open>\<open>str\<close> of a value whose strings are ASCII.\<close>

definition py_str :: "json \<Rightarrow> string" where
  "py_str v = (case v of JStr s \<Rightarrow> s | _ \<Rightarrow> py_repr_with repr_str v)"

text \<open>
  \<open>s.lower()\<close> of a string of characters below U+0100, each \<open>char\<close> read as its code
  point: the letters A to Z and the capital letters from U+00C0 to U+00DE (the
  multiplication sign U+00D7 is none) go to the letter 32 places on; every other
  character below U+0100 is its own lower case. The example environment lowers with it.
\<close>

definition capitals :: string where
  "capitals = ''ABCDEFGHIJKLMNOPQRSTUVWXYZ''
     @ [CHR 0xC0, CHR 0xC1, CHR 0xC2, CHR 0xC3, CHR 0xC4, CHR 0xC5, CHR 0xC6, CHR 0xC7,
        CHR 0xC8, CHR 0xC9, CHR 0xCA, CHR 0xCB, CHR 0xCC, CHR 0xCD, CHR 0xCE, CHR 0xCF,
        CHR 0xD0, CHR 0xD1, CHR 0xD2, CHR 0xD3, CHR 0xD4, CHR 0xD5, CHR 0xD6,
        CHR 0xD8, CHR 0xD9, CHR 0xDA, CHR 0xDB, CHR 0xDC, CHR 0xDD, CHR 0xDE]"

definition smalls :: string where
  "smalls = ''abcdefghijklmnopqrstuvwxyz''
     @ [CHR 0xE0, CHR 0xE1, CHR 0xE2, CHR 0xE3, CHR 0xE4, CHR 0xE5, CHR 0xE6, CHR 0xE7,
        CHR 0xE8, CHR 0xE9, CHR 0xEA, CHR 0xEB, CHR 0xEC, CHR 0xED, CHR 0xEE, CHR 0xEF,
        CHR 0xF0, CHR 0xF1, CHR 0xF2, CHR 0xF3, CHR 0xF4, CHR 0xF5, CHR 0xF6,
        CHR 0xF8, CHR 0xF9, CHR 0xFA, CHR 0xFB, CHR 0xFC, CHR 0xFD, CHR 0xFE]"

definition lower_char :: "char \<Rightarrow> char" where
  "lower_char c = (case map_of (zip capitals smalls) c of None \<Rightarrow> c | Some l \<Rightarrow> l)"

text \<open>\<open>",".join(v)\<close>: the items of \<open>v\<close> must all be strings.\<close>

fun str_items :: "json list \<Rightarrow> error + string list" where
  "str_items [] = Inr []"
| "str_items (JStr s # rest) = and_then (str_items rest) (\<lambda>ss. Inr (s # ss))"
| "str_items (v # rest) = Inl (Raised TypeError ''sequence item: expected str instance'')"

definition join_comma :: "json \<Rightarrow> error + string" where
  "join_comma v = and_then (py_iter v) (\<lambda>items. and_then (str_items items) (\<lambda>ss. Inr (join '','' ss)))"

text \<open>\<open>d.values()\<close>: only a dict has the method.\<close>

fun dict_values :: "json \<Rightarrow> error + json list" where
  "dict_values (JObj kvs) = Inr (map snd (dict_items kvs))"
| "dict_values v = Inl (Raised AttributeError ''object has no attribute values'')"

section \<open>Jira: the HTTP client\<close>

text \<open>
  The resource a request addresses. A value stands for the URL text the f-string renders
  from the issue id: \<open>IssueUrl i\<close> for \<open>rest/api/latest/issue/{i}\<close>, \<open>IssueEditUrl i\<close> for
  \<open>rest/api/latest/issue/{i}/\<close>, \<open>TransitionsUrl i\<close> for
  \<open>rest/api/2/issue/{i}/transitions\<close>, \<open>DoTransitionUrl i\<close> for
  \<open>rest/api/latest/issue/{i}/transitions?expand=transitions.fields\<close>, \<open>CommentUrl i\<close> for
  \<open>rest/api/latest/issue/{i}/comment\<close>, \<open>AttachmentsUrl i\<close> for
  \<open>rest/api/latest/issue/{i}/attachments\<close>, and \<open>LinkUrl u\<close> for a full URL taken from a
  response (\<open>link=True\<close>).
\<close>

datatype resource =
    IssueUrl json
  | IssueEditUrl json
  | TransitionsUrl json
  | DoTransitionUrl json
  | CommentUrl json
  | AttachmentsUrl json
  | LinkUrl json

text \<open>
  A request as \<open>send_request\<close> receives it. \<open>payload\<close> is the value whose \<open>json.dumps\<close> is
  the body (\<open>JStr []\<close> for the default empty body), \<open>files\<close> the \<open>files\<close> argument
  (\<open>JNull\<close> for \<open>None\<close>). The headers of a request are not recorded.
\<close>

record request =
  http_method :: string
  resource :: resource
  payload :: json
  files :: json

text \<open>
  The response object: \<open>json_body\<close> is what \<open>result.json()\<close> returns, \<open>None\<close> when it
  raises \<open>ValueError\<close> because the body is not JSON.
\<close>

record response =
  ok :: bool
  status_code :: int
  body_text :: string
  json_body :: "json option"
  content :: string

text \<open>
  What a command leaves behind: the requests handed to the HTTP layer, in order, and the
  messages given to \<open>demisto.error\<close>.
\<close>

record world =
  sent :: "request list"
  error_log :: "string list"

type_synonym 'a io = "world \<Rightarrow> (error + 'a) \<times> world"

definition io_bind :: "'a io \<Rightarrow> ('a \<Rightarrow> 'b io) \<Rightarrow> 'b io" where
  "io_bind m f w = (case m w of (Inl e, w') \<Rightarrow> (Inl e, w') | (Inr x, w') \<Rightarrow> f x w')"

definition io_of :: "error + 'a \<Rightarrow> 'a io" where
  "io_of r w = (r, w)"

text \<open>
  The collaborators of the Jira commands. \<open>http_request\<close> is the Atlassian client's call:
  it answers a request, possibly depending on the requests made before, or raises.
  \<open>render\<close> stands for the markdown rendering of a fetched issue
  (\<open>generate_md_context_get_issue\<close> and \<open>tableToMarkdown\<close>), of which only a raised failure
  matters here. \<open>getFilePath\<close> and \<open>read_file\<close> are the platform's file lookup and
  \<open>open(path).read()\<close>; \<open>fileResult\<close> stores a downloaded file and returns its entry.
  \<open>edit_issue_command\<close> is the field update of the outbound sync (a \<open>PUT\<close> of the changed
  fields, an optional status or transition change and a re-read of the issue), taken as
  given: it may send requests and may fail. \<open>parse_date\<close> is dateparser's \<open>parse\<close>.
  \<open>EntryType_NOTE\<close>, \<open>EntryFormat_JSON\<close> and \<open>EntryFormat_TEXT\<close> are the platform's
  constants \<open>EntryType.NOTE\<close>, \<open>EntryFormat.JSON\<close> and \<open>EntryFormat.TEXT\<close>. \<open>str_lower\<close> and
  \<open>str_repr\<close> are the interpreter's \<open>str.lower\<close> and the \<open>repr\<close> of a \<open>str\<close>, which
  follow the Unicode tables: the status update compares and prints transition names,
  which Jira gives in the language of the site, and nothing is assumed of the two
  functions.
\<close>

record client_env =
  http_request :: "request list \<Rightarrow> request \<Rightarrow> error + response"
  render :: "json \<Rightarrow> error + unit"
  getFilePath :: "json \<Rightarrow> error + json"
  read_file :: "json \<Rightarrow> error + string"
  fileResult :: "json \<Rightarrow> string \<Rightarrow> json"
  edit_issue_command :: "json \<Rightarrow> json \<Rightarrow> world \<Rightarrow> (error + unit) \<times> world"
  parse_date :: "json \<Rightarrow> error + datetime option"
  EntryType_NOTE :: json
  EntryFormat_JSON :: json
  EntryFormat_TEXT :: json
  str_lower :: "string \<Rightarrow> string"
  str_repr :: "string \<Rightarrow> string"

definition BASIC_AUTH_ERROR_MSG :: string where
  "BASIC_AUTH_ERROR_MSG =
     ''For cloud users: As of June 2019, Basic authentication with passwords for Jira is no''
     @ '' longer supported, please use an API Token or OAuth 1.0''"

text \<open>What \<open>send_request\<close> returns: the parsed body for \<open>resp_type = 'json'\<close>, else the response.\<close>

datatype sent_result = AsJson json | AsResponse response

text \<open>
  The branch of \<open>send_request\<close> for a response that is not \<open>ok\<close>. The \<open>try\<close> block reads
  the JSON body; only the \<open>ValueError\<close> of \<open>result.json()\<close> reaches the \<open>except\<close> clause.
\<close>

definition failed_response :: "request \<Rightarrow> response \<Rightarrow> error + unit" where
  "failed_response req result =
     (case json_body result of
        Some rj \<Rightarrow>
          and_then (dict_get rj ''errorMessages'' JNull) (\<lambda>error_messages.
            if truthy error_messages
            then and_then (join_comma error_messages) (\<lambda>m.
                   return_error (''Status code: '' @ show_int (status_code result)
                                 @ [CHR 0x0A] @ ''Message: '' @ m))
            else and_then (dict_get rj ''errors'' JNull) (\<lambda>errors.
                   if truthy errors
                   then and_then (dict_values errors) (\<lambda>vs.
                        and_then (join_comma (JArr vs)) (\<lambda>m.
                          return_error (''Status code: '' @ show_int (status_code result)
                                        @ [CHR 0x0A] @ ''Message: '' @ m)))
                   else return_error (''Status code: '' @ show_int (status_code result)
                                      @ [CHR 0x0A] @ ''Error text: '' @ body_text result)))
      | None \<Rightarrow>
          if status_code result = 401
          then return_error (''Unauthorized request, please check authentication related parameters.''
                             @ BASIC_AUTH_ERROR_MSG)
          else if status_code result = 404
          then return_error ''Could not connect to the Jira server. Verify that the server URL is correct.''
          else if status_code result = 500 \<and> truthy (files req)
          then return_error (''Failed to execute request, status code: 500'' @ [CHR 0x0A] @ ''Body: ''
                             @ body_text result @ [CHR 0x0A]
                             @ ''Make sure file name doesn'' @ [CHR 0x27] @ ''t contain any special characters'')
          else return_error (''Failed reaching the server. status code: '' @ show_int (status_code result)))"

definition send_request :: "client_env \<Rightarrow> request \<Rightarrow> string \<Rightarrow> sent_result io" where
  "send_request env req resp_type w =
     (let w' = w\<lparr> sent := sent w @ [req] \<rparr> in
      (and_then (http_request env (sent w) req) (\<lambda>result.
       and_then (if \<not> ok result then failed_response req result else Inr ()) (\<lambda>u.
         if resp_type = ''json''
         then (case json_body result of
                 None \<Rightarrow> Inl (Raised ValueError ''Expecting value'')
               | Some j \<Rightarrow> Inr (AsJson j))
         else Inr (AsResponse result))), w'))"


definition plain_request :: "string \<Rightarrow> resource \<Rightarrow> json \<Rightarrow> request" where
  "plain_request m r p = \<lparr> http_method = m, resource = r, payload = p, files = JNull \<rparr>"

subsection \<open>Transitions\<close>








section \<open>Jira: mirroring\<close>

text \<open>
  Comparing datetimes: a naive and an aware one do not compare, and \<open>None\<close> (an
  unparsable date) compares with nothing.
\<close>

fun dt_less :: "datetime \<Rightarrow> datetime \<Rightarrow> error + bool" where
  "dt_less (Naive a) (Naive b) = Inr (a < b)"
| "dt_less (Aware a) (Aware b) = Inr (a < b)"
| "dt_less a b = Inl (Raised TypeError ''cannot compare offset-naive and offset-aware datetimes'')"

fun opt_less :: "datetime option \<Rightarrow> datetime option \<Rightarrow> error + bool" where
  "opt_less (Some a) (Some b) = dt_less a b"
| "opt_less a b = Inl (Raised TypeError ''comparison not supported for NoneType'')"

text \<open>
  Modelled from the spec: \<open>dict_safe_get\<close> (CommonServerPython, not under src/), a path
  extraction "with graceful fallback to a placeholder when a path is absent".
\<close>

fun dict_safe_get :: "json \<Rightarrow> string list \<Rightarrow> json \<Rightarrow> json" where
  "dict_safe_get obj [] dflt = obj"
| "dict_safe_get (JObj kvs) (key # keys) dflt =
     (case map_of kvs key of None \<Rightarrow> dflt | Some v \<Rightarrow> dict_safe_get v keys dflt)"
| "dict_safe_get obj (key # keys) dflt = dflt"

text \<open>\<open>d[key]\<close>.\<close>

fun dict_index :: "json \<Rightarrow> string \<Rightarrow> error + json" where
  "dict_index (JObj kvs) key =
     (case map_of kvs key of None \<Rightarrow> Inl (Raised KeyError key) | Some v \<Rightarrow> Inr v)"
| "dict_index v key = Inl (Raised TypeError ''indices must be integers'')"

text \<open>\<open>needle in haystack\<close>, for strings.\<close>

fun starts_with :: "string \<Rightarrow> string \<Rightarrow> bool" where
  "starts_with [] s = True"
| "starts_with (p # ps) [] = False"
| "starts_with (p # ps) (c # cs) = (p = c \<and> starts_with ps cs)"

fun contains :: "string \<Rightarrow> string \<Rightarrow> bool" where
  "contains needle [] = (needle = [])"
| "contains needle (c # cs) = (starts_with needle (c # cs) \<or> contains needle cs)"

text \<open>\<open>send_request\<close> with \<open>resp_type='json'\<close>; its result is the parsed body.\<close>

definition send_json :: "client_env \<Rightarrow> request \<Rightarrow> json io" where
  "send_json env req =
     io_bind (send_request env req ''json'') (\<lambda>r.
       io_of (case r of AsJson j \<Rightarrow> Inr j
                      | AsResponse x \<Rightarrow> Inl (Raised TypeError ''not a parsed body'')))"

text \<open>\<open>get_issue\<close>, as the mirror commands call it (no link expansion, no attachment
  download): its third result, the raw issue.\<close>

definition get_issue :: "client_env \<Rightarrow> json \<Rightarrow> json io" where
  "get_issue env issue_id =
     io_bind (send_json env (plain_request ''GET'' (IssueUrl issue_id) (JStr []))) (\<lambda>j_res.
     io_bind (io_of (render env j_res)) (\<lambda>u. io_of (Inr j_res)))"

subsection \<open>Inbound update sync (\<open>get_remote_data_command\<close>)\<close>

definition JIRA_RESOLVE_REASON :: string where
  \<open>JIRA_RESOLVE_REASON = ''Issue was marked as "Done"''\<close>

definition closing_entry :: "client_env \<Rightarrow> json" where
  "closing_entry env =
     JObj [(''Type'', EntryType_NOTE env),
           (''Contents'', JObj [(''dbotIncidentClose'', JBool True),
                                (''closeReason'', JStr JIRA_RESOLVE_REASON)]),
           (''ContentsFormat'', EntryFormat_JSON env)]"

definition handle_incoming_closing_incident :: "client_env \<Rightarrow> json \<Rightarrow> error + json" where
  "handle_incoming_closing_incident env incident_data =
     and_then (dict_get incident_data ''fields'' JNull) (\<lambda>f.
     and_then (dict_get f ''status'' JNull) (\<lambda>st.
     and_then (dict_get st ''name'' JNull) (\<lambda>name.
       Inr (if name = JStr ''Done'' then closing_entry env else JObj []))))"

text \<open>The loop of \<open>get_comments_command\<close> reads three keys of every comment.\<close>

fun read_comments :: "json list \<Rightarrow> error + unit" where
  "read_comments [] = Inr ()"
| "read_comments (comment # rest) =
     and_then (dict_get comment ''body'' JNull) (\<lambda>b.
     and_then (dict_get comment ''created'' JNull) (\<lambda>c. read_comments rest))"

text \<open>\<open>get_comments_command\<close>: its third result, the response body, or \<open>None\<close> when the
  issue has no comments.\<close>

definition get_comments_command :: "client_env \<Rightarrow> json \<Rightarrow> json io" where
  "get_comments_command env issue_id =
     io_bind (send_json env (plain_request ''GET'' (CommentUrl issue_id) (JStr []))) (\<lambda>body.
       io_of (and_then (dict_get body ''comments'' JNull) (\<lambda>comments.
                if truthy comments
                then and_then (py_iter comments) (\<lambda>items.
                     and_then (read_comments items) (\<lambda>u. Inr body))
                else Inr JNull)))"

fun newer_comments :: "client_env \<Rightarrow> json list \<Rightarrow> datetime \<Rightarrow> error + json list" where
  "newer_comments env [] incident_modified_date = Inr []"
| "newer_comments env (comment # rest) incident_modified_date =
     and_then (parse_date env (dict_safe_get comment [''updated''] (JStr []))) (\<lambda>comment_modified_date.
     and_then (opt_less (Some incident_modified_date) comment_modified_date) (\<lambda>is_new.
     and_then (newer_comments env rest incident_modified_date) (\<lambda>returned.
       Inr (if is_new then comment # returned else returned))))"

definition get_comments :: "client_env \<Rightarrow> json list \<Rightarrow> datetime \<Rightarrow> bool \<Rightarrow> error + json list" where
  "get_comments env comments incident_modified_date only_new =
     (if \<not> only_new then Inr comments else newer_comments env comments incident_modified_date)"

text \<open>\<open>get_attachment_data\<close>: the file name and the downloaded content.\<close>

definition get_attachment_data :: "client_env \<Rightarrow> json \<Rightarrow> (json \<times> string) io" where
  "get_attachment_data env attachment =
     io_bind (io_of (dict_get attachment ''content'' JNull)) (\<lambda>attachment_url.
     io_bind (io_of (dict_get attachment ''filename'' JNull)) (\<lambda>filename.
     io_bind (send_request env (plain_request ''GET'' (LinkUrl attachment_url) (JStr [])) ''text'') (\<lambda>r.
       io_of (case r of AsResponse x \<Rightarrow> Inr (filename, content x)
                      | AsJson j \<Rightarrow> Inl (Raised AttributeError ''object has no attribute content'')))))"

text \<open>One round of the loop of \<open>get_attachments\<close>: the file results the attachment adds.\<close>

definition attachment_results :: "client_env \<Rightarrow> datetime \<Rightarrow> bool \<Rightarrow> json \<Rightarrow> json list io" where
  "attachment_results env incident_modified_date only_new attachment =
     (if \<not> only_new
      then io_bind (get_attachment_data env attachment) (\<lambda>(filename, zipped).
             io_of (Inr [fileResult env filename zipped]))
      else io_bind (io_of (parse_date env (dict_safe_get attachment [''created''] (JStr []))))
             (\<lambda>attachment_modified_date.
           io_bind (io_of (opt_less (Some incident_modified_date) attachment_modified_date)) (\<lambda>is_new.
             if is_new
             then io_bind (get_attachment_data env attachment) (\<lambda>(filename, zipped).
                    io_of (Inr [fileResult env filename zipped]))
             else io_of (Inr []))))"

fun attachments_loop :: "client_env \<Rightarrow> datetime \<Rightarrow> bool \<Rightarrow> json list \<Rightarrow> json list io" where
  "attachments_loop env d only_new [] w = (Inr [], w)"
| "attachments_loop env d only_new (attachment # rest) w =
     (case attachment_results env d only_new attachment w of
        (Inl e, w') \<Rightarrow> (Inl e, w')
      | (Inr found, w') \<Rightarrow>
          (case attachments_loop env d only_new rest w' of
             (Inl e, w'') \<Rightarrow> (Inl e, w'')
           | (Inr others, w'') \<Rightarrow> (Inr (found @ others), w'')))"

definition get_attachments :: "client_env \<Rightarrow> json \<Rightarrow> datetime \<Rightarrow> bool \<Rightarrow> json list io" where
  "get_attachments env attachments incident_modified_date only_new =
     (if truthy attachments
      then io_bind (io_of (py_iter attachments)) (attachments_loop env incident_modified_date only_new)
      else io_of (Inr []))"

text \<open>\<open>get_incident_entries\<close> with both kinds of entries wanted: the comments and the
  attachments of the entries dict.\<close>

definition get_incident_entries ::
  "client_env \<Rightarrow> json \<Rightarrow> datetime \<Rightarrow> bool \<Rightarrow> (json list \<times> json list) io" where
  "get_incident_entries env issue incident_modified_date only_new =
     io_bind (io_of (dict_index issue ''id'')) (\<lambda>issue_id.
     io_bind (get_comments_command env issue_id) (\<lambda>comments_content.
     io_bind (io_of (if truthy comments_content
                     then and_then (dict_get comments_content ''comments'' (JArr [])) (\<lambda>cs.
                          and_then (py_iter cs) (\<lambda>items.
                            get_comments env items incident_modified_date only_new))
                     else Inr [])) (\<lambda>comments.
     io_bind (if truthy (demisto_get issue [''fields'', ''attachment''])
              then get_attachments env (demisto_get issue [''fields'', ''attachment''])
                     incident_modified_date only_new
              else io_of (Inr [])) (\<lambda>file_results.
       io_of (Inr (comments, file_results))))))"

text \<open>The arguments and the result of \<open>get-remote-data\<close>.\<close>

record remote_data_args =
  remote_id :: json
  last_update :: json

record remote_data_response =
  mirrored_object :: json
  response_entries :: "json list"

definition note_entry :: "client_env \<Rightarrow> json \<Rightarrow> error + json" where
  "note_entry env comment =
     and_then (dict_get comment ''body'' (JStr [])) (\<lambda>body.
       Inr (JObj [(''Type'', EntryType_NOTE env), (''Contents'', body),
                  (''ContentsFormat'', EntryFormat_TEXT env), (''Note'', JBool True)]))"

fun note_entries :: "client_env \<Rightarrow> json list \<Rightarrow> error + json list" where
  "note_entries env [] = Inr []"
| "note_entries env (comment # rest) =
     and_then (note_entry env comment) (\<lambda>e.
     and_then (note_entries env rest) (\<lambda>es. Inr (e # es)))"

text \<open>
  The \<open>try\<close> block up to the comparison of the two dates: the raw issue, the parsed last
  sync date and whether the issue was modified after it. Until here \<open>incident_update\<close> is
  the empty dict.
\<close>

definition compare_dates :: "client_env \<Rightarrow> remote_data_args \<Rightarrow> (json \<times> datetime \<times> bool) io" where
  "compare_dates env args =
     io_bind (get_issue env (remote_id args)) (\<lambda>issue_raw_response.
     io_bind (io_of (parse_date env (dict_safe_get issue_raw_response [''fields'', ''updated''] (JStr []))))
       (\<lambda>jira_modified_date.
     io_bind (io_of (parse_date env (last_update args))) (\<lambda>incident_modified_date.
     io_bind (io_of (opt_less incident_modified_date jira_modified_date)) (\<lambda>modified.
       io_of (case incident_modified_date of
                None \<Rightarrow> Inl (Raised TypeError ''comparison not supported for NoneType'')
              | Some d \<Rightarrow> Inr (issue_raw_response, d, modified))))))"

text \<open>The \<open>try\<close> block after the comparison, for an issue modified after the last sync.
  From here \<open>incident_update\<close> is the raw issue.\<close>

definition pull_update :: "client_env \<Rightarrow> json \<Rightarrow> datetime \<Rightarrow> remote_data_response io" where
  "pull_update env issue_raw_response incident_modified_date =
     io_bind (io_of (handle_incoming_closing_incident env issue_raw_response)) (\<lambda>closed_issue.
       if truthy closed_issue
       then io_of (and_then (dict_assign issue_raw_response ''in_mirror_error'' (JStr [])) (\<lambda>incident_update.
                     Inr \<lparr> mirrored_object = incident_update, response_entries = [closed_issue] \<rparr>))
       else io_bind (get_incident_entries env issue_raw_response incident_modified_date True)
              (\<lambda>(comments, attachments).
            io_bind (io_of (note_entries env comments)) (\<lambda>notes.
              io_of (and_then (dict_assign issue_raw_response ''in_mirror_error'' (JStr [])) (\<lambda>incident_update.
                       Inr \<lparr> mirrored_object = incident_update,
                             response_entries = notes @ attachments \<rparr>)))))"

text \<open>The \<open>except Exception\<close> clause, entered with the current \<open>incident_update\<close>.\<close>

definition mirror_failure :: "remote_data_args \<Rightarrow> json \<Rightarrow> error \<Rightarrow> error + remote_data_response" where
  "mirror_failure args incident_update e =
     (if \<not> is_Exception e then Inl e
      else if contains ''Rate limit exceeded'' (str_of_error e) then return_error ''API rate limit''
      else if truthy incident_update
      then and_then (dict_assign incident_update ''in_mirror_error'' (JStr (str_of_error e))) (\<lambda>marked.
             Inr \<lparr> mirrored_object = marked, response_entries = [] \<rparr>)
      else Inr \<lparr> mirrored_object = JObj [(''id'', remote_id args),
                                           (''in_mirror_error'', JStr (str_of_error e))],
                 response_entries = [] \<rparr>)"

definition get_remote_data_command :: "client_env \<Rightarrow> remote_data_args \<Rightarrow> remote_data_response io" where
  "get_remote_data_command env args w =
     (case compare_dates env args w of
        (Inl e, w1) \<Rightarrow> (mirror_failure args (JObj []) e, w1)
      | (Inr (issue_raw_response, incident_modified_date, modified), w1) \<Rightarrow>
          if modified
          then (case pull_update env issue_raw_response incident_modified_date w1 of
                  (Inl e, w2) \<Rightarrow> (mirror_failure args issue_raw_response e, w2)
                | (Inr r, w2) \<Rightarrow> (Inr r, w2))
          else (and_then (dict_assign (JObj []) ''in_mirror_error'' (JStr [])) (\<lambda>incident_update.
                  Inr \<lparr> mirrored_object = incident_update, response_entries = [] \<rparr>), w1))"

subsection \<open>Outbound sync (\<open>update_remote_system_command\<close>)\<close>

definition add_comment :: "client_env \<Rightarrow> json \<Rightarrow> json \<Rightarrow> json io" where
  "add_comment env issue_id comment =
     send_json env (plain_request ''POST'' (CommentUrl issue_id) (JObj [(''body'', comment)]))"

definition get_file :: "client_env \<Rightarrow> json \<Rightarrow> error + (json \<times> string)" where
  "get_file env entry_id =
     and_then (getFilePath env entry_id) (\<lambda>get_file_path_res.
     and_then (dict_index get_file_path_res ''path'') (\<lambda>file_path.
     and_then (dict_index get_file_path_res ''name'') (\<lambda>file_name.
     and_then (read_file env file_path) (\<lambda>file_bytes. Inr (file_name, file_bytes)))))"

definition upload_request :: "json \<Rightarrow> json \<Rightarrow> string \<Rightarrow> request" where
  "upload_request issue_id name file_bytes =
     \<lparr> http_method = ''POST'', resource = AttachmentsUrl issue_id, payload = JStr [],
       files = JObj [(''file'', JArr [name, JStr file_bytes])] \<rparr>"

definition upload_file :: "client_env \<Rightarrow> json \<Rightarrow> json \<Rightarrow> json \<Rightarrow> json io" where
  "upload_file env entry_id issue_id attachment_name =
     io_bind (io_of (get_file env entry_id)) (\<lambda>(file_name, file_bytes).
       send_json env (upload_request issue_id (py_or attachment_name file_name) file_bytes))"

text \<open>One round of the loop over the entries: a file entry (type 3) is uploaded, any other
  entry is added as a comment.\<close>

definition push_entry :: "client_env \<Rightarrow> json \<Rightarrow> json \<Rightarrow> unit io" where
  "push_entry env remote_incident_id entry =
     io_bind (io_of (dict_get entry ''id'' JNull)) (\<lambda>entry_id.
     io_bind (io_of (dict_get entry ''type'' JNull)) (\<lambda>entry_type.
       if entry_type = JNum 3
       then io_bind (io_of (getFilePath env entry_id)) (\<lambda>path_res.
            io_bind (io_of (dict_get path_res ''name'' JNull)) (\<lambda>file_name.
            io_bind (upload_file env entry_id remote_incident_id file_name) (\<lambda>r. io_of (Inr ()))))
       else io_bind (io_of (dict_get entry ''contents'' (JStr []))) (\<lambda>contents.
            io_bind (add_comment env remote_incident_id (JStr (py_str contents))) (\<lambda>r.
              io_of (Inr ())))))"

fun push_entries :: "client_env \<Rightarrow> json \<Rightarrow> json list \<Rightarrow> unit io" where
  "push_entries env remote_incident_id [] w = (Inr (), w)"
| "push_entries env remote_incident_id (entry # rest) w =
     (case push_entry env remote_incident_id entry w of
        (Inl e, w') \<Rightarrow> (Inl e, w')
      | (Inr u, w') \<Rightarrow> push_entries env remote_incident_id rest w')"

text \<open>The message logged for a failed outbound sync.\<close>

definition outgoing_mirror_error :: "json \<Rightarrow> error \<Rightarrow> string" where
  "outgoing_mirror_error remote_incident_id e =
     ''Error in Jira outgoing mirror for incident '' @ py_str remote_incident_id @ '' '' @ [CHR 0x0A]
     @ ''Error message: '' @ str_of_error e"

text \<open>The parsed arguments of \<open>update-remote-system\<close> (\<open>UpdateRemoteSystemArgs\<close>).\<close>

record update_args =
  remote_incident_id :: json
  delta :: json
  incident_changed :: json
  entries :: json

text \<open>The body of the \<open>try\<close> block: the field update, when there is a delta and the
  incident changed, then the entries.\<close>

definition push_delta :: "client_env \<Rightarrow> update_args \<Rightarrow> unit io" where
  "push_delta env args =
     (if truthy (delta args) \<and> truthy (incident_changed args)
      then edit_issue_command env (remote_incident_id args) (delta args)
      else io_of (Inr ()))"

definition push_changes :: "client_env \<Rightarrow> update_args \<Rightarrow> unit io" where
  "push_changes env args =
     io_bind (push_delta env args) (\<lambda>u.
       if truthy (entries args)
       then io_bind (io_of (py_iter (entries args))) (push_entries env (remote_incident_id args))
       else io_of (Inr ()))"

text \<open>
  \<open>update_remote_system_command\<close>: an \<open>Exception\<close> of the \<open>try\<close> block is logged; the
  \<open>return\<close> in the \<open>finally\<close> clause ends every run, also one aborted otherwise, with the
  remote id.
\<close>

definition update_remote_system_command :: "client_env \<Rightarrow> update_args \<Rightarrow> world \<Rightarrow> json \<times> world" where
  "update_remote_system_command env args w =
     (case push_changes env args w of
        (Inr u, w') \<Rightarrow> (remote_incident_id args, w')
      | (Inl e, w') \<Rightarrow>
          (remote_incident_id args,
           if is_Exception e
           then w'\<lparr> error_log := error_log w' @ [outgoing_mirror_error (remote_incident_id args) e] \<rparr>
           else w'))"

section \<open>Example data for the Jira commands\<close>

definition ex_transition :: "string \<Rightarrow> string \<Rightarrow> json" where
  "ex_transition i n = JObj [(''id'', JStr i), (''name'', JStr n)]"

definition ex_transitions_response :: response where
  "ex_transitions_response =
     \<lparr> ok = True, status_code = 200, body_text = [],
       json_body = Some (JObj [(''transitions'',
          JArr [ex_transition ''11'' ''Open'', ex_transition ''21'' ''In Progress'',
                ex_transition ''31'' ''Done''])]),
       content = [] \<rparr>"

definition ex_client_env :: client_env where
  "ex_client_env =
     \<lparr> http_request = (\<lambda>history req. Inr ex_transitions_response),
       render = (\<lambda>j. Inr ()),
       getFilePath = (\<lambda>j. Inr (JObj [(''name'', JStr ''a.txt''), (''path'', JStr ''/tmp/a.txt'')])),
       read_file = (\<lambda>j. Inr ''bytes''),
       fileResult = (\<lambda>n d. JObj [(''File'', n)]),
       edit_issue_command = (\<lambda>issue_id changes w. (Inr (), w)),
       parse_date = (\<lambda>j. Inr None),
       EntryType_NOTE = JNum 1, EntryFormat_JSON = JStr ''json'', EntryFormat_TEXT = JStr ''text'',
       str_lower = map lower_char, str_repr = repr_str \<rparr>"

definition ex_world :: world where
  "ex_world = \<lparr> sent = [], error_log = [] \<rparr>"






definition ex_issue :: "string \<Rightarrow> json" where
  "ex_issue status_name =
     JObj [(''id'', JStr ''10001''),
           (''fields'', JObj [(''updated'', JStr ''2024-05-02T10:00:00.000+0000''),
                              (''status'', JObj [(''name'', JStr status_name)])])]"

definition ex_issue_response :: "string \<Rightarrow> response" where
  "ex_issue_response status_name =
     \<lparr> ok = True, status_code = 200, body_text = [], json_body = Some (ex_issue status_name),
       content = [] \<rparr>"

text \<open>A date parser that knows two dates: the issue's update time, and a sync time given
  as its distance in microseconds from that update time.\<close>

definition ex_parse :: "json \<Rightarrow> error + datetime option" where
  "ex_parse t =
     (if t = JStr ''2024-05-02T10:00:00.000+0000'' then Inr (Some (Aware 0))
      else (case t of JNum n \<Rightarrow> Inr (Some (Aware n)) | _ \<Rightarrow> Inr None))"

definition ex_mirror_env :: "string \<Rightarrow> client_env" where
  "ex_mirror_env status_name =
     ex_client_env \<lparr> http_request := (\<lambda>history req. Inr (ex_issue_response status_name)),
                     parse_date := ex_parse \<rparr>"

definition ex_remote_data_args :: "int \<Rightarrow> remote_data_args" where
  "ex_remote_data_args synced = \<lparr> remote_id = JStr ''10001'', last_update = JNum synced \<rparr>"

text \<open>A server that refuses every connection.\<close>

definition ex_down_env :: client_env where
  "ex_down_env =
     ex_client_env \<lparr> http_request := (\<lambda>history req. Inl (Raised OtherException ''Connection refused'')) \<rparr>"

definition ex_comment_entry :: "string \<Rightarrow> string \<Rightarrow> json" where
  "ex_comment_entry i c = JObj [(''id'', JStr i), (''type'', JNum 1), (''contents'', JStr c)]"

definition ex_update_args :: "json list \<Rightarrow> update_args" where
  "ex_update_args es =
     \<lparr> remote_incident_id = JStr ''10001'', delta = JObj [], incident_changed = JBool True,
       entries = JArr es \<rparr>"

section \<open>Properties of the Jira poll\<close>

lemma and_then_eq_Inr: "and_then m f = Inr y \<longleftrightarrow> (\<exists>x. m = Inr x \<and> f x = Inr y)"
  by (cases m) auto

lemma fetch_loop_result:
  "fetch_loop mk c ts (off, cr, incs) = Inr (off', cr', incs') \<Longrightarrow> py_int off = Inr a \<Longrightarrow> c \<le> a \<Longrightarrow>
     \<exists>b new. py_int off' = Inr b \<and> a \<le> b
        \<and> (off' = off \<or> (\<exists>n. off' = JNum n))
        \<and> (\<forall>t\<in>set ts. \<exists>n tc. ticket_id_of t = Inr n \<and> ticket_created_of t = Inr tc \<and> n \<le> b)
        \<and> map mk (filter (newer c) ts) = map Inr new \<and> incs' = incs @ new"
proof (induction ts arbitrary: off cr incs a)
  case Nil
  then show ?case by simp
next
  case (Cons t rest)
  from Cons.prems(1) obtain n tc where row: "ticket_id_of t = Inr n" "ticket_created_of t = Inr tc"
    and step: "(if n \<le> c then fetch_loop mk c rest (off, cr, incs)
       else and_then (py_int off) (\<lambda>a.
            and_then (mk t) (\<lambda>incident.
              if n > a then fetch_loop mk c rest (JNum n, tc, incs @ [incident])
              else fetch_loop mk c rest (off, cr, incs @ [incident])))) = Inr (off', cr', incs')"
    by (auto simp: and_then_eq_Inr)
  show ?case
  proof (cases "n \<le> c")
    case True
    with step have "fetch_loop mk c rest (off, cr, incs) = Inr (off', cr', incs')" by simp
    from Cons.IH[OF this Cons.prems(2,3)] obtain b new where
      b: "py_int off' = Inr b" "a \<le> b" "off' = off \<or> (\<exists>n. off' = JNum n)"
         "\<forall>t\<in>set rest. \<exists>n tc. ticket_id_of t = Inr n \<and> ticket_created_of t = Inr tc \<and> n \<le> b"
         "map mk (filter (newer c) rest) = map Inr new" "incs' = incs @ new" by blast
    from True row have "\<not> newer c t" by (simp add: newer_def)
    with b row True Cons.prems(3) show ?thesis by (intro exI[of _ b] exI[of _ new]) auto
  next
    case False
    then have nw: "newer c t" using row by (simp add: newer_def)
    from step False Cons.prems(2) obtain i where i: "mk t = Inr i"
      and step': "(if n > a then fetch_loop mk c rest (JNum n, tc, incs @ [i])
              else fetch_loop mk c rest (off, cr, incs @ [i])) = Inr (off', cr', incs')"
      by (auto simp: and_then_eq_Inr)
    show ?thesis
    proof (cases "n > a")
      case True
      with step' have "fetch_loop mk c rest (JNum n, tc, incs @ [i]) = Inr (off', cr', incs')" by simp
      from Cons.IH[OF this, of n] False obtain b new where
        b: "py_int off' = Inr b" "n \<le> b" "off' = JNum n \<or> (\<exists>n. off' = JNum n)"
           "\<forall>t\<in>set rest. \<exists>n tc. ticket_id_of t = Inr n \<and> ticket_created_of t = Inr tc \<and> n \<le> b"
           "map mk (filter (newer c) rest) = map Inr new" "incs' = (incs @ [i]) @ new" by auto
      with row True nw i show ?thesis by (intro exI[of _ b] exI[of _ "i # new"]) auto
    next
      case na: False
      with step' have "fetch_loop mk c rest (off, cr, incs @ [i]) = Inr (off', cr', incs')" by simp
      from Cons.IH[OF this Cons.prems(2,3)] obtain b new where
        b: "py_int off' = Inr b" "a \<le> b" "off' = off \<or> (\<exists>n. off' = JNum n)"
           "\<forall>t\<in>set rest. \<exists>n tc. ticket_id_of t = Inr n \<and> ticket_created_of t = Inr tc \<and> n \<le> b"
           "map mk (filter (newer c) rest) = map Inr new" "incs' = (incs @ [i]) @ new" by blast
      with row na nw i show ?thesis by (intro exI[of _ b] exI[of _ "i # new"]) auto
    qed
  qed
qed

lemma fetch_loop_skip_all:
  "\<forall>t\<in>set ts. \<exists>n tc. ticket_id_of t = Inr n \<and> ticket_created_of t = Inr tc \<and> n \<le> c
     \<Longrightarrow> fetch_loop mk c ts st = Inr st"
proof (induction ts)
  case Nil
  then show ?case by simp
next
  case (Cons t rest)
  obtain off cr incs where st: "st = (off, cr, incs)" by (cases st) auto
  from Cons.prems obtain n tc where "ticket_id_of t = Inr n" "ticket_created_of t = Inr tc" "n \<le> c" by auto
  moreover have "fetch_loop mk c rest st = Inr st" using Cons by simp
  ultimately show ?case unfolding st by simp
qed

lemma normal_initial_cursor: "normal_offset (fst (initial_cursor lr args))"
  by (simp add: initial_cursor_def normal_offset_def Let_def)

lemma initial_cursor_stored:
  "normal_offset off \<Longrightarrow>
   fst (initial_cursor [(''idOffset'', off), (''lastCreatedTime'', cr)] args) = off"
  by (auto simp: initial_cursor_def normal_offset_def Let_def last_run_get_def py_or_def)

lemma map_of_replace_other:
  "k \<noteq> k' \<Longrightarrow> map_of (map (\<lambda>kv. if fst kv = k then (k, v) else kv) kvs) k' = map_of kvs k'"
  by (induction kvs) auto

lemma map_of_append_other: "k \<noteq> k' \<Longrightarrow> map_of (kvs @ [(k, v)]) k' = map_of kvs k'"
  by (induction kvs) auto

lemma map_of_set_key_other: "k \<noteq> k' \<Longrightarrow> map_of (set_key k v kvs) k' = map_of kvs k'"
  using map_of_replace_other[of k k' v kvs] map_of_append_other[of k k' kvs v]
  by (simp add: set_key_def del: map_of_append)

lemma create_incident_total:
  assumes "ticket_id_of t = Inr n"
  shows "\<exists>i. create_incident_from_ticket inst args t = Inr i \<and> ticket_id_of (rawJSON i) = Inr n"
proof -
  from assms obtain kvs where t: "t = JObj kvs" by (cases t) (auto simp: ticket_id_of_def)
  with assms show ?thesis
    by (simp add: create_incident_from_ticket_def ticket_id_of_def map_of_set_key_other)
qed


text \<open>What a successful poll did.\<close>

lemma jira_fetch_result:
  assumes "jira_fetch_incidents env lr args = Inr (lr', incs)"
    and "initial_cursor lr args = (offset, lct)"
  shows "\<exists>res off' cr'. jira_poll_response env lr args = Inr res
          \<and> lr' = [(''idOffset'', off'), (''lastCreatedTime'', cr')]
          \<and> normal_offset off'
          \<and> (if truthy res
              then \<exists>a b tickets. py_int offset = Inr a \<and> jira_issues res = Inr tickets
                    \<and> py_int off' = Inr b \<and> a \<le> b
                    \<and> (\<forall>t\<in>set tickets. \<exists>n tc. ticket_id_of t = Inr n \<and> ticket_created_of t = Inr tc \<and> n \<le> b)
                    \<and> map (create_incident_from_ticket (integrationInstance env) args)
                          (filter (newer a) tickets) = map Inr incs
              else off' = offset \<and> incs = [])"
proof -
  have norm: "normal_offset offset" using normal_initial_cursor[of lr args] assms(2) by simp
  from assms obtain res off' cr' where
    res: "jira_poll_response env lr args = Inr res"
    and mid: "(if truthy res
                  then and_then (py_int offset) (\<lambda>curr_id.
                       and_then (jira_issues res) (\<lambda>tickets.
                         fetch_loop (create_incident_from_ticket (integrationInstance env) args)
                           curr_id tickets (offset, lct, [])))
                  else Inr (offset, lct, [])) = Inr (off', cr', incs)"
    and lr': "lr' = [(''idOffset'', off'), (''lastCreatedTime'', cr')]"
    by (auto simp: jira_fetch_incidents_def and_then_eq_Inr)
  show ?thesis
  proof (cases "truthy res")
    case False
    with mid norm res lr' show ?thesis by auto
  next
    case True
    with mid obtain a tickets where a: "py_int offset = Inr a" and t: "jira_issues res = Inr tickets"
      and loop: "fetch_loop (create_incident_from_ticket (integrationInstance env) args)
                           a tickets (offset, lct, []) = Inr (off', cr', incs)"
      by (auto simp: and_then_eq_Inr)
    from fetch_loop_result[OF loop a] obtain b new where
      b: "py_int off' = Inr b" "a \<le> b" "off' = offset \<or> (\<exists>n. off' = JNum n)"
         "\<forall>t\<in>set tickets. \<exists>n tc. ticket_id_of t = Inr n \<and> ticket_created_of t = Inr tc \<and> n \<le> b"
         "map (create_incident_from_ticket (integrationInstance env) args) (filter (newer a) tickets)
            = map Inr new" "incs = [] @ new"
      by auto
    from b(3) norm have "normal_offset off'" by (auto simp: normal_offset_def)
    with True res lr' a t b show ?thesis by auto
  qed
qed

text \<open>The stored offset after a successful poll that started from a number, and the tickets
  the poll was handed.\<close>

lemma jira_fetch_bound:
  assumes first: "jira_fetch_incidents env lr args = Inr (lr', incs)"
    and numeric: "py_int (fst (initial_cursor lr args)) = Inr a"
    and ret: "jira_returned env lr args = Inr ts"
  shows "\<exists>off' cr' b. lr' = [(''idOffset'', off'), (''lastCreatedTime'', cr')]
           \<and> normal_offset off' \<and> py_int off' = Inr b \<and> a \<le> b
           \<and> (\<forall>t\<in>set ts. \<exists>n tc. ticket_id_of t = Inr n \<and> ticket_created_of t = Inr tc \<and> n \<le> b)"
proof -
  obtain offset lct where ic: "initial_cursor lr args = (offset, lct)" by (cases "initial_cursor lr args")
  from jira_fetch_result[OF first ic] obtain res off' cr' where
    res: "jira_poll_response env lr args = Inr res"
    and lr': "lr' = [(''idOffset'', off'), (''lastCreatedTime'', cr')]"
    and norm: "normal_offset off'"
    and body: "if truthy res
              then \<exists>a b tickets. py_int offset = Inr a \<and> jira_issues res = Inr tickets
                    \<and> py_int off' = Inr b \<and> a \<le> b
                    \<and> (\<forall>t\<in>set tickets. \<exists>n tc. ticket_id_of t = Inr n \<and> ticket_created_of t = Inr tc \<and> n \<le> b)
                    \<and> map (create_incident_from_ticket (integrationInstance env) args)
                          (filter (newer a) tickets) = map Inr incs
              else off' = offset \<and> incs = []" by blast
  show ?thesis
  proof (cases "truthy res")
    case False
    with body res ret numeric ic lr' norm show ?thesis by (auto simp: jira_returned_def)
  next
    case True
    with body obtain a' b tickets where "py_int offset = Inr a'" "jira_issues res = Inr tickets"
      "py_int off' = Inr b" "a' \<le> b"
      "\<forall>t\<in>set tickets. \<exists>n tc. ticket_id_of t = Inr n \<and> ticket_created_of t = Inr tc \<and> n \<le> b"
      by auto
    with True res ret numeric ic lr' norm show ?thesis by (auto simp: jira_returned_def)
  qed
qed

lemma jira_rerun:
  assumes first: "jira_fetch_incidents env lr args = Inr (lr', incs)"
    and numeric: "py_int (fst (initial_cursor lr args)) = Inr a"
    and ret1: "jira_returned env lr args = Inr ts1"
    and ret2: "jira_returned env lr' args = Inr ts2"
    and sub: "set ts2 \<subseteq> set ts1"
  shows "\<exists>lr''. jira_fetch_incidents env lr' args = Inr (lr'', [])
           \<and> last_run_get lr'' ''idOffset'' = last_run_get lr' ''idOffset''
           \<and> (\<forall>t\<in>set ts2. \<exists>n b. ticket_id_of t = Inr n
                 \<and> py_int (last_run_get lr' ''idOffset'') = Inr b \<and> n \<le> b)"
proof -
  from jira_fetch_bound[OF first numeric ret1] obtain off' cr' b where
    lr': "lr' = [(''idOffset'', off'), (''lastCreatedTime'', cr')]"
    and norm: "normal_offset off'" and b: "py_int off' = Inr b"
    and le1: "\<forall>t\<in>set ts1. \<exists>n tc. ticket_id_of t = Inr n \<and> ticket_created_of t = Inr tc \<and> n \<le> b"
    by blast
  from le1 sub have le2: "\<forall>t\<in>set ts2. \<exists>n tc. ticket_id_of t = Inr n \<and> ticket_created_of t = Inr tc \<and> n \<le> b"
    by blast
  obtain lct2 where ic2: "initial_cursor lr' args = (off', lct2)"
    using initial_cursor_stored[OF norm, of cr' args] lr' by (cases "initial_cursor lr' args") auto
  from ret2 obtain res2 where res2: "jira_poll_response env lr' args = Inr res2"
    and iss2: "(if truthy res2 then jira_issues res2 else Inr []) = Inr ts2"
    by (auto simp: jira_returned_def and_then_eq_Inr)
  have stored: "last_run_get lr' ''idOffset'' = off'" by (simp add: lr' last_run_get_def)
  have second: "jira_fetch_incidents env lr' args
                  = Inr ([(''idOffset'', off'), (''lastCreatedTime'', lct2)], [])"
  proof (cases "truthy res2")
    case False
    then show ?thesis using ic2 res2 by (simp add: jira_fetch_incidents_def)
  next
    case True
    with iss2 have "jira_issues res2 = Inr ts2" by simp
    with fetch_loop_skip_all[OF le2] True b ic2 res2 show ?thesis
      by (simp add: jira_fetch_incidents_def)
  qed
  have "\<forall>t\<in>set ts2. \<exists>n b. ticket_id_of t = Inr n
                 \<and> py_int (last_run_get lr' ''idOffset'') = Inr b \<and> n \<le> b"
    using le2 b stored by auto
  with second stored show ?thesis by (simp add: last_run_get_def)
qed


lemma jira_issues_truthy: "jira_issues res = Inr ts \<Longrightarrow> ts \<noteq> [] \<Longrightarrow> truthy res"
  by (cases res) (auto simp: jira_issues_def)

section \<open>Properties of the CASB poll\<close>

lemma casb_loop_result:
  "casb_loop items (seen, out) = Inr (seen', out') \<Longrightarrow>
     seen \<subseteq> seen' \<and> (\<forall>i\<in>set items. \<exists>k. incident_key i = Inr k \<and> k \<in> seen')"
proof (induction items arbitrary: seen out)
  case Nil
  then show ?case by simp
next
  case (Cons i rest)
  from Cons.prems obtain k where k: "incident_key i = Inr k"
    and step: "(if k \<notin> seen
       then and_then (to_xsoar i) (\<lambda>x. casb_loop rest (insert k seen, out @ [x]))
       else casb_loop rest (seen, out)) = Inr (seen', out')"
    by (auto simp: and_then_eq_Inr)
  show ?case
  proof (cases "k \<in> seen")
    case True
    with step have "casb_loop rest (seen, out) = Inr (seen', out')" by simp
    from Cons.IH[OF this] True k show ?thesis by auto
  next
    case False
    with step obtain x where "casb_loop rest (insert k seen, out @ [x]) = Inr (seen', out')"
      by (auto simp: and_then_eq_Inr)
    from Cons.IH[OF this] k show ?thesis by auto
  qed
qed

lemma casb_loop_skip_all:
  "\<forall>i\<in>set items. \<exists>k. incident_key i = Inr k \<and> k \<in> seen \<Longrightarrow> casb_loop items (seen, out) = Inr (seen, out)"
  by (induction items) auto

lemma casb_fetch_result:
  assumes "casb_fetch_incidents env lr = Inr (lr', out)"
  shows "\<exists>result incidents. casb_poll_response env lr = Inr result
          \<and> casb_incidents result = Inr incidents
          \<and> (if truthy incidents
              then \<exists>items nst. py_iter incidents = Inr items
                    \<and> casb_loop items (seen_ids lr, []) = Inr (seen_ids lr', out)
                    \<and> casb_next_start_time result = Inr nst
                    \<and> lr' = \<lparr> start_time = Some nst, ids = Some (seen_ids lr') \<rparr>
              else lr' = lr \<and> out = [])"
proof -
  from assms obtain result incidents where
    r: "casb_poll_response env lr = Inr result" and i: "casb_incidents result = Inr incidents"
    and mid: "(if truthy incidents
       then and_then (py_iter incidents) (\<lambda>items.
            and_then (casb_loop items (seen_ids lr, [])) (\<lambda>(seen, xsoar_incidents).
            and_then (casb_next_start_time result) (\<lambda>next_start_time.
              Inr (\<lparr> start_time = Some next_start_time, ids = Some seen \<rparr>, xsoar_incidents))))
       else Inr (lr, [])) = Inr (lr', out)"
    by (auto simp: casb_fetch_incidents_def and_then_eq_Inr)
  show ?thesis
  proof (cases "truthy incidents")
    case False
    with r i mid show ?thesis by auto
  next
    case True
    with mid obtain items seen nst where "py_iter incidents = Inr items"
      "casb_loop items (seen_ids lr, []) = Inr (seen, out)"
      "casb_next_start_time result = Inr nst"
      "lr' = \<lparr> start_time = Some nst, ids = Some seen \<rparr>"
      by (auto simp: and_then_eq_Inr)
    with r i True show ?thesis by (auto simp: seen_ids_def)
  qed
qed

lemma casb_returned_fetch:
  assumes "casb_fetch_incidents env lr = Inr (lr', out)"
  shows "\<exists>items. casb_returned env lr = Inr items
           \<and> (\<forall>i\<in>set items. \<exists>k. incident_key i = Inr k \<and> k \<in> seen_ids lr')"
proof -
  from casb_fetch_result[OF assms] obtain result incidents where
    r: "casb_poll_response env lr = Inr result" and i: "casb_incidents result = Inr incidents"
    and body: "if truthy incidents
              then \<exists>items nst. py_iter incidents = Inr items
                    \<and> casb_loop items (seen_ids lr, []) = Inr (seen_ids lr', out)
                    \<and> casb_next_start_time result = Inr nst
                    \<and> lr' = \<lparr> start_time = Some nst, ids = Some (seen_ids lr') \<rparr>
              else lr' = lr \<and> out = []" by blast
  show ?thesis
  proof (cases "truthy incidents")
    case False with r i show ?thesis by (simp add: casb_returned_def)
  next
    case True
    with body obtain items where it: "py_iter incidents = Inr items"
      and loop: "casb_loop items (seen_ids lr, []) = Inr (seen_ids lr', out)" by auto
    from casb_loop_result[OF loop] True r i it show ?thesis by (simp add: casb_returned_def)
  qed
qed

lemma casb_rerun:
  assumes first: "casb_fetch_incidents env lr = Inr (lr', out)"
    and ret1: "casb_returned env lr = Inr items1"
    and ret2: "casb_returned env lr' = Inr items2"
    and sub: "set items2 \<subseteq> set items1"
    and nst: "and_then (casb_poll_response env lr') casb_next_start_time = Inr nst"
  shows "\<exists>lr''. casb_fetch_incidents env lr' = Inr (lr'', [])
           \<and> seen_ids lr'' = seen_ids lr'
           \<and> (\<forall>i\<in>set items2. \<exists>k. incident_key i = Inr k \<and> k \<in> seen_ids lr')"
proof -
  from casb_returned_fetch[OF first] ret1
  have seen1: "\<forall>i\<in>set items1. \<exists>k. incident_key i = Inr k \<and> k \<in> seen_ids lr'" by simp
  with sub have seen2: "\<forall>i\<in>set items2. \<exists>k. incident_key i = Inr k \<and> k \<in> seen_ids lr'" by blast
  from ret2 obtain result2 incidents2 where
    r2: "casb_poll_response env lr' = Inr result2" and i2: "casb_incidents result2 = Inr incidents2"
    and it2: "(if truthy incidents2 then py_iter incidents2 else Inr []) = Inr items2"
    by (auto simp: casb_returned_def and_then_eq_Inr)
  from nst r2 have nst2: "casb_next_start_time result2 = Inr nst" by simp
  show ?thesis
  proof (cases "truthy incidents2")
    case False
    with r2 i2 seen2 show ?thesis by (simp add: casb_fetch_incidents_def)
  next
    case True
    with it2 have "py_iter incidents2 = Inr items2" by simp
    with casb_loop_skip_all[OF seen2, of "[]"] True r2 i2 nst2 seen2 show ?thesis
      by (simp add: casb_fetch_incidents_def seen_ids_def)
  qed
qed



section \<open>The poll claims\<close>

lemmas py_int_eval = int_of_string_def strip_def is_space_def unsigned_value_def is_digit_def digit_val_def

lemmas jira_eval = jira_fetch_incidents_def jira_poll_response_def initial_cursor_def build_query_def
  jira_issues_def ticket_id_of_def ticket_created_of_def last_run_get_def py_or_def
  ex_jira_env_def ex_fetch_args_def ex_ticket_def ex_jira_last_run_def jira_returned_def
  create_incident_from_ticket_def

lemmas casb_eval = casb_fetch_incidents_def casb_poll_response_def casb_start_time_def casb_incidents_def
  casb_next_start_time_def incident_key_def to_xsoar_def seen_ids_def py_or_def
  ex_casb_env_def ex_casb_result_def ex_incident_def ex_casb_last_run_def casb_returned_def

lemma ex_jira_first_poll:
  "\<exists>incs. jira_fetch_incidents ex_jira_env [] ex_fetch_args = Inr (ex_jira_last_run, incs)"
  by (simp add: jira_eval py_int_eval)

lemma ex_jira_returned:
  "jira_returned ex_jira_env last_run ex_fetch_args
     = Inr [ex_ticket ''99'' ''t1'', ex_ticket ''101'' ''t2'', ex_ticket ''105'' ''t3'']"
  by (simp add: jira_returned_def jira_poll_response_def initial_cursor_def build_query_def
                jira_issues_def ex_jira_env_def ex_fetch_args_def Let_def)

lemma ex_jira_start: "py_int (fst (initial_cursor [] ex_fetch_args)) = Inr 100"
  by (simp add: initial_cursor_def ex_fetch_args_def py_int_eval)

lemma ex_casb_first_poll:
  "\<exists>out. casb_fetch_incidents (ex_casb_env [ex_incident ''A'', ex_incident ''B''])
            \<lparr> start_time = None, ids = None \<rparr> = Inr (ex_casb_last_run, out)"
  by (auto simp add: casb_eval)

lemma ex_casb_returned: "casb_returned (ex_casb_env (i # items)) last_run = Inr (i # items)"
  by (simp add: casb_returned_def casb_poll_response_def casb_incidents_def ex_casb_env_def
                ex_casb_result_def)

lemma ex_casb_next:
  "and_then (casb_poll_response (ex_casb_env items) last_run) casb_next_start_time = Inr (JStr ''next'')"
  by (simp add: casb_poll_response_def casb_next_start_time_def ex_casb_env_def ex_casb_result_def)

text \<open>
  Claim C1, as the code has it. Let a poll succeed, and let it be run again with the
  cursor it produced. If the second run is handed only records that the first run was
  handed, it emits nothing. In the Jira adapter (for a poll that started from a numeric
  offset) the second run succeeds with an empty incident list and the same \<open>idOffset\<close>,
  and every ticket it is handed has an id at most the stored \<open>idOffset\<close>. In the CASB
  adapter (for a second response whose next start time can be read) the second run
  succeeds with an empty incident list and the same seen-id set, and every incident it
  is handed is a member of the stored seen-id set.
\<close>

theorem poll_rerun_emits_nothing:
  "(jira_fetch_incidents env lr args = Inr (lr', incs) \<longrightarrow>
      py_int (fst (initial_cursor lr args)) = Inr a \<longrightarrow>
      jira_returned env lr args = Inr ts1 \<longrightarrow>
      jira_returned env lr' args = Inr ts2 \<longrightarrow>
      set ts2 \<subseteq> set ts1 \<longrightarrow>
      (\<exists>lr''. jira_fetch_incidents env lr' args = Inr (lr'', [])
         \<and> last_run_get lr'' ''idOffset'' = last_run_get lr' ''idOffset''
         \<and> (\<forall>t\<in>set ts2. \<exists>n b. ticket_id_of t = Inr n
               \<and> py_int (last_run_get lr' ''idOffset'') = Inr b \<and> n \<le> b)))
   \<and> (casb_fetch_incidents cenv clr = Inr (clr', out) \<longrightarrow>
      casb_returned cenv clr = Inr items1 \<longrightarrow>
      casb_returned cenv clr' = Inr items2 \<longrightarrow>
      set items2 \<subseteq> set items1 \<longrightarrow>
      and_then (casb_poll_response cenv clr') casb_next_start_time = Inr nst \<longrightarrow>
      (\<exists>clr''. casb_fetch_incidents cenv clr' = Inr (clr'', [])
         \<and> seen_ids clr'' = seen_ids clr'
         \<and> (\<forall>i\<in>set items2. \<exists>k. incident_key i = Inr k \<and> k \<in> seen_ids clr')))"
  using jira_rerun[of env lr args lr' incs a ts1 ts2]
        casb_rerun[of cenv clr clr' out items1 items2 nst]
  by blast

theorem poll_rerun_emits_nothing_witness:
  "(\<exists>incs. jira_fetch_incidents ex_jira_env [] ex_fetch_args = Inr (ex_jira_last_run, incs))
   \<and> (\<exists>lr''. jira_fetch_incidents ex_jira_env ex_jira_last_run ex_fetch_args = Inr (lr'', [])
         \<and> last_run_get lr'' ''idOffset'' = JNum 105)
   \<and> (\<exists>out. casb_fetch_incidents (ex_casb_env [ex_incident ''A'', ex_incident ''B''])
                \<lparr> start_time = None, ids = None \<rparr> = Inr (ex_casb_last_run, out))
   \<and> (\<exists>clr''. casb_fetch_incidents (ex_casb_env [ex_incident ''A'', ex_incident ''B'']) ex_casb_last_run
                = Inr (clr'', [])
         \<and> seen_ids clr'' = {JStr ''A'', JStr ''B''})"
proof -
  let ?cenv = "ex_casb_env [ex_incident ''A'', ex_incident ''B'']"
  let ?ts = "[ex_ticket ''99'' ''t1'', ex_ticket ''101'' ''t2'', ex_ticket ''105'' ''t3'']"
  obtain incs where j1: "jira_fetch_incidents ex_jira_env [] ex_fetch_args = Inr (ex_jira_last_run, incs)"
    using ex_jira_first_poll by blast
  obtain out where c1: "casb_fetch_incidents ?cenv \<lparr> start_time = None, ids = None \<rparr>
                          = Inr (ex_casb_last_run, out)"
    using ex_casb_first_poll by blast
  have sub: "set ?ts \<subseteq> set ?ts" "set [ex_incident ''A'', ex_incident ''B'']
               \<subseteq> set [ex_incident ''A'', ex_incident ''B'']" by simp_all
  from poll_rerun_emits_nothing[of ex_jira_env "[]" ex_fetch_args ex_jira_last_run incs 100 ?ts ?ts
         ?cenv "\<lparr> start_time = None, ids = None \<rparr>" ex_casb_last_run out
         "[ex_incident ''A'', ex_incident ''B'']" "[ex_incident ''A'', ex_incident ''B'']" "JStr ''next''"]
       j1 ex_jira_start ex_jira_returned c1 ex_casb_returned ex_casb_next sub
  obtain lr'' clr'' where
    "jira_fetch_incidents ex_jira_env ex_jira_last_run ex_fetch_args = Inr (lr'', [])"
    "last_run_get lr'' ''idOffset'' = last_run_get ex_jira_last_run ''idOffset''"
    "casb_fetch_incidents ?cenv ex_casb_last_run = Inr (clr'', [])"
    "seen_ids clr'' = seen_ids ex_casb_last_run"
    by blast
  with j1 c1 show ?thesis
    by (auto simp: last_run_get_def ex_jira_last_run_def seen_ids_def ex_casb_last_run_def)
qed

text \<open>
  Where claim C1 fails as stated: the remote system holds 51 issues and does not change.
  The first poll is handed the issues 1 to 50 and stores \<open>idOffset = 50\<close>; the poll run
  again with that cursor is handed the issues 50 and 51 and emits an incident for issue
  51, whose id is above the stored \<open>idOffset\<close>.
\<close>

theorem rerun_emits_next_page:
  "jira_fetch_incidents ex_paging_env [] ex_plain_args
     = Inr (ex_cursor 50, map ex_numbered_incident [1..<51])
   \<and> jira_fetch_incidents ex_paging_env (ex_cursor 50) ex_plain_args
     = Inr (ex_cursor 51, [ex_numbered_incident 51])"
  by code_simp

text \<open>
  Claim C2. A Jira poll that starts from offset 100 and is handed tickets with the ids 99,
  101 and 105, in that order, emits the incidents of the tickets 101 and 105, in that
  order, and stores \<open>idOffset = 105\<close> (with the created time of ticket 105).
\<close>

theorem jira_scenario:
  assumes "py_int (fst (initial_cursor last_run args)) = Inr 100"
    and "jira_returned env last_run args = Inr [t99, t101, t105]"
    and "ticket_id_of t99 = Inr 99" and "ticket_created_of t99 = Inr c99"
    and "ticket_id_of t101 = Inr 101" and "ticket_created_of t101 = Inr c101"
    and "ticket_id_of t105 = Inr 105" and "ticket_created_of t105 = Inr c105"
  shows "\<exists>i101 i105.
           create_incident_from_ticket (integrationInstance env) args t101 = Inr i101
         \<and> create_incident_from_ticket (integrationInstance env) args t105 = Inr i105
         \<and> ticket_id_of (rawJSON i101) = Inr 101 \<and> ticket_id_of (rawJSON i105) = Inr 105
         \<and> jira_fetch_incidents env last_run args =
             Inr ([(''idOffset'', JNum 105), (''lastCreatedTime'', c105)], [i101, i105])"
proof -
  obtain offset lct where ic: "initial_cursor last_run args = (offset, lct)"
    by (cases "initial_cursor last_run args")
  with assms(1) have off: "py_int offset = Inr 100" by simp
  from assms(2) obtain res where res: "jira_poll_response env last_run args = Inr res"
    and iss: "(if truthy res then jira_issues res else Inr []) = Inr [t99, t101, t105]"
    by (auto simp: jira_returned_def and_then_eq_Inr)
  then have tr: "truthy res" and iss': "jira_issues res = Inr [t99, t101, t105]"
    by (auto split: if_splits)
  from create_incident_total[OF assms(5)] obtain i101 where
    i101: "create_incident_from_ticket (integrationInstance env) args t101 = Inr i101"
          "ticket_id_of (rawJSON i101) = Inr 101" by blast
  from create_incident_total[OF assms(7)] obtain i105 where
    i105: "create_incident_from_ticket (integrationInstance env) args t105 = Inr i105"
          "ticket_id_of (rawJSON i105) = Inr 105" by blast
  have "jira_fetch_incidents env last_run args =
             Inr ([(''idOffset'', JNum 105), (''lastCreatedTime'', c105)], [i101, i105])"
    using ic off res tr iss' assms(3-8) i101(1) i105(1) by (simp add: jira_fetch_incidents_def)
  with i101 i105 show ?thesis by blast
qed

theorem jira_scenario_witness:
  "\<exists>i101 i105.
      rawJSON i101 = JObj [(''id'', JStr ''101''), (''fields'', JObj [(''created'', JStr ''t2'')]),
                           (''mirror_direction'', JStr ''In''),
                           (''mirror_tags'', JArr [JStr ''comment'', JStr ''attachment'']),
                           (''mirror_instance'', JStr ''jira'')]
    \<and> ticket_id_of (rawJSON i105) = Inr 105
    \<and> jira_fetch_incidents ex_jira_env [] ex_fetch_args =
        Inr ([(''idOffset'', JNum 105), (''lastCreatedTime'', JStr ''t3'')], [i101, i105])"
proof -
  have ids: "ticket_id_of (ex_ticket ''99'' ''t1'') = Inr 99"
            "ticket_id_of (ex_ticket ''101'' ''t2'') = Inr 101"
            "ticket_id_of (ex_ticket ''105'' ''t3'') = Inr 105"
    by (simp_all add: ticket_id_of_def ex_ticket_def py_int_eval)
  have cr: "ticket_created_of (ex_ticket ''99'' ''t1'') = Inr (JStr ''t1'')"
           "ticket_created_of (ex_ticket ''101'' ''t2'') = Inr (JStr ''t2'')"
           "ticket_created_of (ex_ticket ''105'' ''t3'') = Inr (JStr ''t3'')"
    by (simp_all add: ticket_created_of_def ex_ticket_def)
  from jira_scenario[OF ex_jira_start ex_jira_returned ids(1) cr(1) ids(2) cr(2) ids(3) cr(3)]
  obtain i101 i105 where
    a: "create_incident_from_ticket (integrationInstance ex_jira_env) ex_fetch_args
          (ex_ticket ''101'' ''t2'') = Inr i101"
    and b: "ticket_id_of (rawJSON i105) = Inr 105"
    and c: "jira_fetch_incidents ex_jira_env [] ex_fetch_args =
        Inr ([(''idOffset'', JNum 105), (''lastCreatedTime'', JStr ''t3'')], [i101, i105])"
    by blast
  from a have "rawJSON i101 = JObj [(''id'', JStr ''101''), (''fields'', JObj [(''created'', JStr ''t2'')]),
                           (''mirror_direction'', JStr ''In''),
                           (''mirror_tags'', JArr [JStr ''comment'', JStr ''attachment'']),
                           (''mirror_instance'', JStr ''jira'')]"
    by (auto simp: create_incident_from_ticket_def ex_jira_env_def ex_fetch_args_def ex_ticket_def
                   set_key_def get_mirror_type_def)
  with b c show ?thesis by blast
qed



lemma casb_loop_seen:
  "casb_loop items (seen, out) = Inr (seen', out') \<Longrightarrow>
     seen' = seen \<union> {k. \<exists>i\<in>set items. incident_key i = Inr k}"
proof (induction items arbitrary: seen out)
  case Nil
  then show ?case by simp
next
  case (Cons i rest)
  from Cons.prems obtain k where k: "incident_key i = Inr k"
    and step: "(if k \<notin> seen
       then and_then (to_xsoar i) (\<lambda>x. casb_loop rest (insert k seen, out @ [x]))
       else casb_loop rest (seen, out)) = Inr (seen', out')"
    by (auto simp: and_then_eq_Inr)
  show ?case
  proof (cases "k \<in> seen")
    case True
    with step have "casb_loop rest (seen, out) = Inr (seen', out')" by simp
    from Cons.IH[OF this] True k show ?thesis by auto
  next
    case False
    with step obtain x where "casb_loop rest (insert k seen, out @ [x]) = Inr (seen', out')"
      by (auto simp: and_then_eq_Inr)
    from Cons.IH[OF this] k show ?thesis by auto
  qed
qed

lemma to_xsoar_total: "incident_key i = Inr k \<Longrightarrow> \<exists>x. to_xsoar i = Inr x \<and> raw_json x = i"
  by (cases i) (auto simp: incident_key_def to_xsoar_def)

lemma casb_returned_nonempty:
  assumes "casb_returned env lr = Inr items" and "items \<noteq> []"
  shows "\<exists>result incidents. casb_poll_response env lr = Inr result
           \<and> casb_incidents result = Inr incidents \<and> truthy incidents \<and> py_iter incidents = Inr items"
  using assms by (auto simp: casb_returned_def and_then_eq_Inr split: if_splits)

text \<open>
  Claim C3. After a CASB poll that was handed the incidents \<open>[A, B]\<close>, a second poll that is
  handed \<open>[B, C]\<close>, with \<open>C\<close> an incident not seen so far, emits exactly the record of
  \<open>C\<close>, and both \<open>B\<close> and \<open>C\<close> are in the seen-id set it stores.
\<close>

theorem casb_scenario:
  assumes first: "casb_fetch_incidents env lr = Inr (lr1, out1)"
    and ret1: "casb_returned env lr = Inr [iA, iB]"
    and a: "incident_key iA = Inr a" and b: "incident_key iB = Inr b"
    and ret2: "casb_returned env2 lr1 = Inr [iB2, iC]"
    and b2: "incident_key iB2 = Inr b" and c: "incident_key iC = Inr c"
    and nst: "and_then (casb_poll_response env2 lr1) casb_next_start_time = Inr nst"
    and new: "c \<notin> seen_ids lr" "c \<noteq> a" "c \<noteq> b"
  shows "\<exists>lr2 xC. casb_fetch_incidents env2 lr1 = Inr (lr2, [xC])
           \<and> to_xsoar iC = Inr xC \<and> raw_json xC = iC
           \<and> b \<in> seen_ids lr2 \<and> c \<in> seen_ids lr2"
proof -
  from casb_returned_nonempty[OF ret1] obtain result incidents where
    r: "casb_poll_response env lr = Inr result" and i: "casb_incidents result = Inr incidents"
    and tr: "truthy incidents" and it: "py_iter incidents = Inr [iA, iB]" by auto
  from casb_fetch_result[OF first] r i tr it
  have loop1: "casb_loop [iA, iB] (seen_ids lr, []) = Inr (seen_ids lr1, out1)" by auto
  from casb_loop_seen[OF loop1] a b have seen1: "seen_ids lr1 = seen_ids lr \<union> {a, b}" by auto
  from casb_returned_nonempty[OF ret2] obtain result2 incidents2 where
    r2: "casb_poll_response env2 lr1 = Inr result2" and i2: "casb_incidents result2 = Inr incidents2"
    and tr2: "truthy incidents2" and it2: "py_iter incidents2 = Inr [iB2, iC]" by auto
  from nst r2 have nst2: "casb_next_start_time result2 = Inr nst" by simp
  from to_xsoar_total[OF c] obtain xC where xC: "to_xsoar iC = Inr xC" "raw_json xC = iC" by blast
  have bin: "b \<in> seen_ids lr1" and cnot: "c \<notin> seen_ids lr1" using seen1 new by auto
  have "casb_loop [iB2, iC] (seen_ids lr1, []) = Inr (insert c (seen_ids lr1), [xC])"
    using b2 c bin cnot xC by simp
  with r2 i2 tr2 it2 nst2
  have "casb_fetch_incidents env2 lr1
          = Inr (\<lparr> start_time = Some nst, ids = Some (insert c (seen_ids lr1)) \<rparr>, [xC])"
    by (simp add: casb_fetch_incidents_def)
  with xC bin show ?thesis by (auto simp: seen_ids_def)
qed

theorem casb_scenario_witness:
  "\<exists>lr2 xC. casb_fetch_incidents (ex_casb_env [ex_incident ''B'', ex_incident ''C'']) ex_casb_last_run
               = Inr (lr2, [xC])
           \<and> to_xsoar (ex_incident ''C'') = Inr xC \<and> raw_json xC = ex_incident ''C''
           \<and> JStr ''B'' \<in> seen_ids lr2 \<and> JStr ''C'' \<in> seen_ids lr2"
proof -
  obtain out where first: "casb_fetch_incidents (ex_casb_env [ex_incident ''A'', ex_incident ''B''])
                \<lparr> start_time = None, ids = None \<rparr> = Inr (ex_casb_last_run, out)"
    using ex_casb_first_poll by blast
  have k: "incident_key (ex_incident ''A'') = Inr (JStr ''A'')"
          "incident_key (ex_incident ''B'') = Inr (JStr ''B'')"
          "incident_key (ex_incident ''C'') = Inr (JStr ''C'')"
    by (simp_all add: incident_key_def ex_incident_def)
  have new: "JStr ''C'' \<notin> seen_ids \<lparr> start_time = None, ids = None \<rparr>"
            "JStr ''C'' \<noteq> JStr ''A''" "JStr ''C'' \<noteq> JStr ''B''"
    by (simp_all add: seen_ids_def)
  from casb_scenario[OF first ex_casb_returned k(1) k(2) ex_casb_returned k(2) k(3) ex_casb_next new]
  show ?thesis .
qed

section \<open>Properties of the Jira client\<close>








section \<open>Status updates\<close>









section \<open>Failure classification of the client\<close>








section \<open>Inbound update sync\<close>

lemma io_of_apply: "io_of r w = (r, w)"
  by (simp add: io_of_def)

lemma io_bind_apply:
  "io_bind m f w = (case m w of (Inl e, w') \<Rightarrow> (Inl e, w') | (Inr x, w') \<Rightarrow> f x w')"
  by (simp add: io_bind_def)

lemma compare_dates_result:
  assumes "get_issue env (remote_id args) w = (Inr issue, w1)"
    and "parse_date env (dict_safe_get issue [''fields'', ''updated''] (JStr [])) = Inr (Some jira_modified)"
    and "parse_date env (last_update args) = Inr (Some incident_modified)"
    and "dt_less incident_modified jira_modified = Inr modified"
  shows "compare_dates env args w = (Inr (issue, incident_modified, modified), w1)"
  using assms by (simp add: compare_dates_def io_bind_apply io_of_apply)

text \<open>
  Claim C4. When the fetched issue's \<open>fields.updated\<close> is not later than the last sync time,
  \<open>get_remote_data_command\<close> returns a mirrored object that holds only the cleared
  \<open>in_mirror_error\<close> marker, and no entries; it sends nothing after fetching the issue.
\<close>

theorem unmodified_issue_no_update:
  assumes "get_issue env (remote_id args) w = (Inr issue, w1)"
    and "parse_date env (dict_safe_get issue [''fields'', ''updated''] (JStr [])) = Inr (Some jira_modified)"
    and "parse_date env (last_update args) = Inr (Some incident_modified)"
    and "dt_less incident_modified jira_modified = Inr False"
  shows "get_remote_data_command env args w =
           (Inr \<lparr> mirrored_object = JObj [(''in_mirror_error'', JStr [])], response_entries = [] \<rparr>, w1)"
  using compare_dates_result[OF assms]
  by (simp add: get_remote_data_command_def set_key_def)

lemmas mirror_eval = get_issue_def send_json_def send_request_def io_bind_apply io_of_apply
  plain_request_def ex_mirror_env_def ex_client_env_def ex_issue_response_def ex_issue_def ex_parse_def
  ex_remote_data_args_def ex_world_def

theorem unmodified_issue_no_update_witness:
  "get_remote_data_command (ex_mirror_env ''Open'') (ex_remote_data_args 5) ex_world =
     (Inr \<lparr> mirrored_object = JObj [(''in_mirror_error'', JStr [])], response_entries = [] \<rparr>,
      \<lparr> sent = [plain_request ''GET'' (IssueUrl (JStr ''10001'')) (JStr [])], error_log = [] \<rparr>)"
proof -
  have h1: "get_issue (ex_mirror_env ''Open'') (remote_id (ex_remote_data_args 5)) ex_world
              = (Inr (ex_issue ''Open''),
                 \<lparr> sent = [plain_request ''GET'' (IssueUrl (JStr ''10001'')) (JStr [])], error_log = [] \<rparr>)"
    by (simp add: mirror_eval)
  have h2: "parse_date (ex_mirror_env ''Open'')
              (dict_safe_get (ex_issue ''Open'') [''fields'', ''updated''] (JStr [])) = Inr (Some (Aware 0))"
    by (simp add: ex_mirror_env_def ex_issue_def ex_parse_def)
  have h3: "parse_date (ex_mirror_env ''Open'') (last_update (ex_remote_data_args 5)) = Inr (Some (Aware 5))"
    by (simp add: ex_mirror_env_def ex_remote_data_args_def ex_parse_def)
  have h4: "dt_less (Aware 5) (Aware 0) = Inr False" by simp
  from unmodified_issue_no_update[OF h1 h2 h3 h4] show ?thesis .
qed

text \<open>
  Where claim C5 fails as stated: an issue whose status name is \<open>Done\<close> and whose
  \<open>fields.updated\<close> equals the last sync time gets no close directive.
\<close>

theorem done_issue_not_closed:
  "demisto_get (ex_issue ''Done'') [''fields'', ''status'', ''name''] = JStr ''Done''
   \<and> fst (get_remote_data_command (ex_mirror_env ''Done'') (ex_remote_data_args 0) ex_world) =
       Inr \<lparr> mirrored_object = JObj [(''in_mirror_error'', JStr [])], response_entries = [] \<rparr>"
  by (simp add: get_remote_data_command_def compare_dates_def mirror_eval set_key_def)

text \<open>
  Claim C5, as the code has it. When the fetched issue was modified after the last sync
  and its status name is \<open>Done\<close>, \<open>get_remote_data_command\<close> returns the issue with the
  cleared \<open>in_mirror_error\<close> marker and exactly one entry, the close directive; it sends
  nothing after fetching the issue, so no comment or attachment is read.
\<close>

theorem modified_done_issue_closes:
  assumes "get_issue env (remote_id args) w = (Inr issue, w1)"
    and "parse_date env (dict_safe_get issue [''fields'', ''updated''] (JStr [])) = Inr (Some jira_modified)"
    and "parse_date env (last_update args) = Inr (Some incident_modified)"
    and "dt_less incident_modified jira_modified = Inr True"
    and "dict_get issue ''fields'' JNull = Inr issue_fields"
    and "dict_get issue_fields ''status'' JNull = Inr status"
    and "dict_get status ''name'' JNull = Inr (JStr ''Done'')"
  shows "\<exists>kvs. issue = JObj kvs
           \<and> get_remote_data_command env args w =
               (Inr \<lparr> mirrored_object = JObj (set_key ''in_mirror_error'' (JStr []) kvs),
                       response_entries = [closing_entry env] \<rparr>, w1)"
proof -
  from assms(5) obtain kvs where kvs: "issue = JObj kvs" by (cases issue) auto
  have c: "handle_incoming_closing_incident env issue = Inr (closing_entry env)"
    using assms(5-7) by (simp add: handle_incoming_closing_incident_def)
  have t: "truthy (closing_entry env)" by (simp add: closing_entry_def)
  have "pull_update env issue incident_modified w1 =
          (Inr \<lparr> mirrored_object = JObj (set_key ''in_mirror_error'' (JStr []) kvs),
                  response_entries = [closing_entry env] \<rparr>, w1)"
    using c t unfolding kvs by (simp add: pull_update_def io_bind_apply io_of_apply)
  with compare_dates_result[OF assms(1-4)] kvs show ?thesis
    by (simp add: get_remote_data_command_def)
qed

theorem modified_done_issue_closes_witness:
  "get_remote_data_command (ex_mirror_env ''Done'') (ex_remote_data_args (- 1)) ex_world =
     (Inr \<lparr> mirrored_object =
               JObj [(''id'', JStr ''10001''),
                     (''fields'', JObj [(''updated'', JStr ''2024-05-02T10:00:00.000+0000''),
                                        (''status'', JObj [(''name'', JStr ''Done'')])]),
                     (''in_mirror_error'', JStr [])],
             response_entries = [closing_entry (ex_mirror_env ''Done'')] \<rparr>,
      \<lparr> sent = [plain_request ''GET'' (IssueUrl (JStr ''10001'')) (JStr [])], error_log = [] \<rparr>)"
proof -
  have h1: "get_issue (ex_mirror_env ''Done'') (remote_id (ex_remote_data_args (- 1))) ex_world
              = (Inr (ex_issue ''Done''),
                 \<lparr> sent = [plain_request ''GET'' (IssueUrl (JStr ''10001'')) (JStr [])], error_log = [] \<rparr>)"
    by (simp add: mirror_eval)
  have h2: "parse_date (ex_mirror_env ''Done'')
              (dict_safe_get (ex_issue ''Done'') [''fields'', ''updated''] (JStr [])) = Inr (Some (Aware 0))"
    by (simp add: ex_mirror_env_def ex_issue_def ex_parse_def)
  have h3: "parse_date (ex_mirror_env ''Done'') (last_update (ex_remote_data_args (- 1)))
              = Inr (Some (Aware (- 1)))"
    by (simp add: ex_mirror_env_def ex_remote_data_args_def ex_parse_def)
  have h4: "dt_less (Aware (- 1)) (Aware 0) = Inr True" by simp
  have h5: "dict_get (ex_issue ''Done'') ''fields'' JNull
              = Inr (JObj [(''updated'', JStr ''2024-05-02T10:00:00.000+0000''),
                           (''status'', JObj [(''name'', JStr ''Done'')])])"
    by (simp add: ex_issue_def)
  have h6: "dict_get (JObj [(''updated'', JStr ''2024-05-02T10:00:00.000+0000''),
                           (''status'', JObj [(''name'', JStr ''Done'')])]) ''status'' JNull
              = Inr (JObj [(''name'', JStr ''Done'')])" by simp
  have h7: "dict_get (JObj [(''name'', JStr ''Done'')]) ''name'' JNull = Inr (JStr ''Done'')" by simp
  from modified_done_issue_closes[OF h1 h2 h3 h4 h5 h6 h7]
  show ?thesis by (auto simp: ex_issue_def set_key_def)
qed

section \<open>Outbound sync\<close>

lemma push_entries_append:
  "push_entries env rid pre w = (Inr (), w1) \<Longrightarrow>
   push_entries env rid (pre @ rest) w = push_entries env rid rest w1"
proof (induction pre arbitrary: w)
  case Nil
  then show ?case by simp
next
  case (Cons e pre)
  obtain r w' where step: "push_entry env rid e w = (r, w')" by (cases "push_entry env rid e w")
  show ?case
  proof (cases r)
    case (Inl err)
    with step Cons.prems show ?thesis by simp
  next
    case (Inr u)
    with step Cons.prems have "push_entries env rid pre w' = (Inr (), w1)" by simp
    from Cons.IH[OF this] step Inr show ?thesis by simp
  qed
qed

lemma push_entries_stops:
  assumes "push_entries env rid pre w = (Inr (), w1)"
    and "push_entry env rid e w1 = (Inl err, w2)"
  shows "push_entries env rid (pre @ e # post) w = (Inl err, w2)"
  using push_entries_append[OF assms(1), of "e # post"] assms(2) by simp

lemma py_iter_truthy: "py_iter v = Inr xs \<Longrightarrow> xs \<noteq> [] \<Longrightarrow> truthy v"
  by (cases v) auto

lemma update_returns_remote_id: "fst (update_remote_system_command env args w) = remote_incident_id args"
  by (simp add: update_remote_system_command_def split: prod.splits sum.splits)

text \<open>
  Claim C6, as the code has it. \<open>update_remote_system_command\<close> always returns the remote
  incident id. When the push of an entry fails, the run ends in the world that failed
  push left, with the failure logged if it is an \<open>Exception\<close>: no entry after the failing
  one is attempted.
\<close>

theorem update_stops_at_failure:
  "fst (update_remote_system_command env args w) = remote_incident_id args
   \<and> (push_delta env args w = (Inr (), w0) \<longrightarrow>
      py_iter (entries args) = Inr (pre @ e # post) \<longrightarrow>
      push_entries env (remote_incident_id args) pre w0 = (Inr (), w1) \<longrightarrow>
      push_entry env (remote_incident_id args) e w1 = (Inl err, w2) \<longrightarrow>
      update_remote_system_command env args w =
        (remote_incident_id args,
         if is_Exception err
         then w2\<lparr> error_log := error_log w2 @ [outgoing_mirror_error (remote_incident_id args) err] \<rparr>
         else w2))"
proof (intro conjI impI)
  show "fst (update_remote_system_command env args w) = remote_incident_id args"
    by (rule update_returns_remote_id)
next
  assume d: "push_delta env args w = (Inr (), w0)"
    and it: "py_iter (entries args) = Inr (pre @ e # post)"
    and pre: "push_entries env (remote_incident_id args) pre w0 = (Inr (), w1)"
    and fail: "push_entry env (remote_incident_id args) e w1 = (Inl err, w2)"
  have t: "truthy (entries args)" using py_iter_truthy[OF it] by simp
  have "push_changes env args w = (Inl err, w2)"
    using d t it push_entries_stops[OF pre fail, of post]
    by (simp add: push_changes_def io_bind_def io_of_def)
  then show "update_remote_system_command env args w =
        (remote_incident_id args,
         if is_Exception err
         then w2\<lparr> error_log := error_log w2 @ [outgoing_mirror_error (remote_incident_id args) err] \<rparr>
         else w2)"
    by (simp add: update_remote_system_command_def)
qed

lemmas update_eval = update_remote_system_command_def push_changes_def push_delta_def push_entry_def
  add_comment_def send_json_def send_request_def plain_request_def io_bind_def io_of_def
  ex_update_args_def ex_comment_entry_def ex_down_env_def ex_client_env_def ex_world_def py_str_def

theorem update_stops_at_failure_witness:
  "update_remote_system_command ex_down_env
     (ex_update_args [ex_comment_entry ''1'' ''first'', ex_comment_entry ''2'' ''second'']) ex_world =
   (JStr ''10001'',
    \<lparr> sent = [plain_request ''POST'' (CommentUrl (JStr ''10001'')) (JObj [(''body'', JStr ''first'')])],
      error_log = [outgoing_mirror_error (JStr ''10001'') (Raised OtherException ''Connection refused'')] \<rparr>)"
proof -
  let ?args = "ex_update_args [ex_comment_entry ''1'' ''first'', ex_comment_entry ''2'' ''second'']"
  let ?w2 = "\<lparr> sent = [plain_request ''POST'' (CommentUrl (JStr ''10001'')) (JObj [(''body'', JStr ''first'')])],
               error_log = [] \<rparr>"
  have rid: "remote_incident_id ?args = JStr ''10001''" by (simp add: ex_update_args_def)
  have h1: "push_delta ex_down_env ?args ex_world = (Inr (), ex_world)"
    by (simp add: push_delta_def ex_update_args_def io_of_def)
  have h2: "py_iter (entries ?args) = Inr ([] @ ex_comment_entry ''1'' ''first'' # [ex_comment_entry ''2'' ''second''])"
    by (simp add: ex_update_args_def)
  have h3: "push_entries ex_down_env (remote_incident_id ?args) [] ex_world = (Inr (), ex_world)"
    by simp
  have h4: "push_entry ex_down_env (remote_incident_id ?args) (ex_comment_entry ''1'' ''first'') ex_world
              = (Inl (Raised OtherException ''Connection refused''), ?w2)"
    by (simp add: update_eval)
  from update_stops_at_failure[of ex_down_env ?args ex_world ex_world "[]" "ex_comment_entry ''1'' ''first''"
         "[ex_comment_entry ''2'' ''second'']" ex_world "Raised OtherException ''Connection refused''" ?w2]
       h1 h2 h3 h4
  have "update_remote_system_command ex_down_env ?args ex_world =
        (remote_incident_id ?args,
         if is_Exception (Raised OtherException ''Connection refused'')
         then ?w2\<lparr> error_log := error_log ?w2 @ [outgoing_mirror_error (remote_incident_id ?args)
                                                  (Raised OtherException ''Connection refused'')] \<rparr>
         else ?w2)"
    by blast
  then show ?thesis by (simp add: rid)
qed

text \<open>
  Where claim C6 fails as stated: with a server that refuses every connection and two
  comment entries, the push of the first entry fails and the second entry is never
  attempted.
\<close>

theorem second_entry_not_attempted:
  "sent (snd (update_remote_system_command ex_down_env
          (ex_update_args [ex_comment_entry ''1'' ''first'', ex_comment_entry ''2'' ''second'']) ex_world))
     = [plain_request ''POST'' (CommentUrl (JStr ''10001'')) (JObj [(''body'', JStr ''first'')])]
   \<and> plain_request ''POST'' (CommentUrl (JStr ''10001'')) (JObj [(''body'', JStr ''second'')])
       \<notin> set (sent (snd (update_remote_system_command ex_down_env
          (ex_update_args [ex_comment_entry ''1'' ''first'', ex_comment_entry ''2'' ''second'']) ex_world)))"
  by (simp add: update_eval)

text \<open>
  Claim C7. With an empty field delta and an empty entry list,
  \<open>update_remote_system_command\<close> returns the remote incident id and leaves the world as it
  was: no request is sent.
\<close>

theorem empty_update_sends_nothing:
  assumes "\<not> truthy (delta args)" and "\<not> truthy (entries args)"
  shows "update_remote_system_command env args w = (remote_incident_id args, w)"
  using assms
  by (simp add: update_remote_system_command_def push_changes_def push_delta_def io_bind_def io_of_def)

theorem empty_update_sends_nothing_witness:
  "update_remote_system_command ex_down_env (ex_update_args []) ex_world = (JStr ''10001'', ex_world)"
proof -
  have h1: "\<not> truthy (delta (ex_update_args []))" by (simp add: ex_update_args_def)
  have h2: "\<not> truthy (entries (ex_update_args []))" by (simp add: ex_update_args_def)
  from empty_update_sends_nothing[OF h1 h2, of ex_down_env ex_world]
  show ?thesis by (simp add: ex_update_args_def)
qed


end
